theory Spec2Isabelle
  imports Main "HOL-Library.Word"
begin

text \<open>
  The session manager of a multi-device WhatsApp gateway (class \<open>WhatsAppManager\<close>)
  and the part of the store it writes to (models/database.js). The class exists in two
  revisions. The definitions with the plain names of the methods follow the revision
  that counts failed initializations (\<open>initializationAttempts\<close>, \<open>maxRetries\<close>), skips
  status messages and trims the response path. The definitions with the suffix
  \<open>_services\<close> follow services/whatsapp-manager.js, the revision that index.js loads,
  where it differs; \<open>sendMessage\<close> is the same in both.

  Every method is a function from the state before the call to the state after it,
  together with the value returned or the error thrown. An asynchronous method is one
  step: the calls of different methods are not interleaved. What the outside world
  answers (the provider, the HTTP transport, \<open>uuidv4\<close>, \<open>JSON.parse\<close>) is the
  parameter \<open>env\<close>.
\<close>

section \<open>JavaScript strings and the built-ins the manager uses\<close>

text \<open>
  A JavaScript string is a sequence of UTF-16 code units. \<open>js\<close> embeds an ASCII literal
  of the source text.
\<close>

type_synonym jschar = "16 word"
type_synonym jsstring = "jschar list"

definition js :: "string \<Rightarrow> jsstring" where
  "js s = map (\<lambda>c. word_of_nat (of_char c)) s"

text \<open>
  \<open>String.prototype.trim\<close> removes WhiteSpace and LineTerminator code points from both
  ends: TAB, LF, VT, FF, CR, SP, NBSP, U+1680, U+2000..U+200A, U+2028, U+2029, U+202F,
  U+205F, U+3000 and U+FEFF.
\<close>

definition isWhiteSpace :: "jschar \<Rightarrow> bool" where
  "isWhiteSpace c \<longleftrightarrow>
     c \<in> {0x09, 0x0A, 0x0B, 0x0C, 0x0D, 0x20, 0xA0, 0x1680, 0x2028, 0x2029, 0x202F,
           0x205F, 0x3000, 0xFEFF}
     \<or> (0x2000 \<le> c \<and> c \<le> 0x200A)"

definition trim :: "jsstring \<Rightarrow> jsstring" where
  "trim s = rev (dropWhile isWhiteSpace (rev (dropWhile isWhiteSpace s)))"

text \<open>\<open>s.includes(sub)\<close>: \<open>sub\<close> occurs in \<open>s\<close> as a contiguous substring.\<close>

fun js_includes :: "jsstring \<Rightarrow> jsstring \<Rightarrow> bool" where
  "js_includes [] sub = (sub = [])"
| "js_includes (c # cs) sub = (take (length sub) (c # cs) = sub \<or> js_includes cs sub)"

text \<open>\<open>s.split(sep)\<close> for a separator of one code unit; the result is never empty.\<close>

fun split_acc :: "jschar \<Rightarrow> jsstring \<Rightarrow> jsstring \<Rightarrow> jsstring list" where
  "split_acc sep acc [] = [rev acc]"
| "split_acc sep acc (c # cs) =
     (if c = sep then rev acc # split_acc sep [] cs else split_acc sep (c # acc) cs)"

definition split :: "jsstring \<Rightarrow> jschar \<Rightarrow> jsstring list" where
  "split s sep = split_acc sep [] s"

text \<open>\<open>s.split(sep)[0]\<close>.\<close>

definition split_first :: "jsstring \<Rightarrow> jschar \<Rightarrow> jsstring" where
  "split_first s sep = (case split s sep of [] \<Rightarrow> [] | x # _ \<Rightarrow> x)"

text \<open>
  \<open>String(n)\<close> for an integral number: its decimal digits, with a minus sign for a
  negative one. JavaScript switches to exponent notation from 1e21 on; the numbers the
  manager converts are HTTP statuses and timestamps in seconds.
\<close>

function String_nat :: "nat \<Rightarrow> jsstring" where
  "String_nat n =
     (if n < 10 then [word_of_nat (48 + n)]
      else String_nat (n div 10) @ [word_of_nat (48 + n mod 10)])"
  by pat_completeness auto
termination
  by (relation "measure id") auto

declare String_nat.simps [simp del]

definition String_int :: "int \<Rightarrow> jsstring" where
  "String_int i = (if i < 0 then js ''-'' @ String_nat (nat (- i)) else String_nat (nat i))"

definition String_bool :: "bool \<Rightarrow> jsstring" where
  "String_bool b = (if b then js ''true'' else js ''false'')"

text \<open>
  \<open>str.replace(regex, replacement)\<close> for a global regular expression that matches one
  fixed non-empty text and has no capture groups, which is what
  \<open>new RegExp(`{{${key}}}`, 'g')\<close> is for the keys of the variable set (letters and
  underscores; braces that form no quantifier are literal).

  The replacement string is not inserted as it is: \<open>getSubstitution\<close> expands
  \<open>$$\<close> to a dollar sign, \<open>$&\<close> to the matched text, \<open>$`\<close> to the text before the
  match and \<open>$'\<close> to the text after it. With no capture groups \<open>$1\<close>..\<open>$99\<close> and
  \<open>$<\<close> stay as they are.
\<close>

fun getSubstitution :: "jsstring \<Rightarrow> jsstring \<Rightarrow> jsstring \<Rightarrow> jsstring \<Rightarrow> jsstring" where
  "getSubstitution matched preceding following (c # d # rest) =
     (if c = 0x24 then
        (if d = 0x24 then 0x24 # getSubstitution matched preceding following rest
         else if d = 0x26 then matched @ getSubstitution matched preceding following rest
         else if d = 0x60 then preceding @ getSubstitution matched preceding following rest
         else if d = 0x27 then following @ getSubstitution matched preceding following rest
         else c # getSubstitution matched preceding following (d # rest))
      else c # getSubstitution matched preceding following (d # rest))"
| "getSubstitution matched preceding following rest = rest"

text \<open>
  The matches are the leftmost non-overlapping occurrences of \<open>pat\<close>, found left to
  right in the original string; \<open>preceding\<close> is the part of the original string already
  passed.
\<close>

function replace_from :: "jsstring \<Rightarrow> jsstring \<Rightarrow> jsstring \<Rightarrow> jsstring \<Rightarrow> jsstring" where
  "replace_from pat replacement preceding [] = []"
| "replace_from pat replacement preceding (c # cs) =
     (if pat \<noteq> [] \<and> take (length pat) (c # cs) = pat
      then getSubstitution pat preceding (drop (length pat) (c # cs)) replacement
           @ replace_from pat replacement (preceding @ pat) (drop (length pat) (c # cs))
      else c # replace_from pat replacement (preceding @ [c]) cs)"
  by pat_completeness auto
termination
  by (relation "measure (\<lambda>(pat, replacement, preceding, s). length s)") auto

definition replace :: "jsstring \<Rightarrow> jsstring \<Rightarrow> jsstring \<Rightarrow> jsstring" where
  "replace str pat replacement = replace_from pat replacement [] str"

section \<open>Values\<close>

text \<open>
  The values that \<open>JSON.parse\<close> produces, and that the template variables hold. An
  object is the list of its own properties in insertion order (the first entry of a key
  is the property). A number is kept as an integer: the manager only tests a number for
  being zero and prints the message timestamp, which is integral.
\<close>

datatype json =
    JNull
  | JBool bool
  | JNum int
  | JStr jsstring
  | JArr "json list"
  | JObj "(jsstring \<times> json) list"

fun truthy :: "json \<Rightarrow> bool" where
  "truthy JNull = False"
| "truthy (JBool b) = b"
| "truthy (JNum n) = (n \<noteq> 0)"
| "truthy (JStr s) = (s \<noteq> [])"
| "truthy (JArr xs) = True"
| "truthy (JObj kvs) = True"

text \<open>\<open>typeof v === 'object'\<close> holds for null, arrays and objects.\<close>

fun typeof_object :: "json \<Rightarrow> bool" where
  "typeof_object JNull = True"
| "typeof_object (JArr xs) = True"
| "typeof_object (JObj kvs) = True"
| "typeof_object v = False"

text \<open>
  The own property \<open>key\<close> of an object or an array (\<open>None\<close> when there is none). An
  array has its elements under the canonical decimal spelling of their index.
\<close>

fun property :: "json \<Rightarrow> jsstring \<Rightarrow> json option" where
  "property (JObj kvs) key = map_of kvs key"
| "property (JArr xs) key =
     (case find (\<lambda>i. String_nat i = key) [0..<length xs] of
        None \<Rightarrow> None
      | Some i \<Rightarrow> Some (xs ! i))"
| "property v key = None"

text \<open>Errors thrown in the manager, with their \<open>message\<close>.\<close>

datatype js_error = Error jsstring | TypeError jsstring | SyntaxError jsstring

fun message :: "js_error \<Rightarrow> jsstring" where
  "message (Error m) = m"
| "message (TypeError m) = m"
| "message (SyntaxError m) = m"

text \<open>The two errors of \<open>createDevice\<close> that the specification names.\<close>

definition AlreadyExists :: js_error where
  "AlreadyExists = Error (js ''Device already exists'')"

definition RetryLimitExceeded :: js_error where
  "RetryLimitExceeded = Error (js ''Maximum initialization attempts reached'')"

section \<open>Data model\<close>

text \<open>A row of the \<open>devices\<close> table (models/database.js); TEXT columns may be NULL.\<close>

record device =
  name :: jsstring
  phone_number :: "jsstring option"
  status :: jsstring
  webhook_url :: "jsstring option"
  webhook_enabled :: int
  webhook_response_enabled :: int
  webhook_body_template :: "jsstring option"
  webhook_response_path :: "jsstring option"
  qr_code :: "jsstring option"

text \<open>
  An inbound message object of the session provider. Its \<open>body\<close> is a string, empty
  for a message without text, so that \<open>msg.body || ''\<close> is the body itself; the flags
  are booleans, so that \<open>msg.hasMedia || false\<close> is the flag itself.
\<close>

record msg =
  msg_id_serialized :: jsstring
  msg_from :: jsstring
  msg_to :: jsstring
  msg_body :: jsstring
  msg_type :: jsstring
  msg_timestamp :: int
  notifyName :: "jsstring option"
  hasMedia :: bool
  isForwarded :: bool
  isStatus :: bool
  broadcast :: bool

text \<open>The descriptor that the provider's send operation returns.\<close>

record sent_message =
  sent_id_serialized :: jsstring
  sent_from :: jsstring
  sent_to :: jsstring
  sent_timestamp :: int

text \<open>A row written to the \<open>messages\<close> table (\<open>messageData\<close>).\<close>

record message_data =
  row_id :: jsstring
  device_id :: jsstring
  message_id :: jsstring
  from_number :: jsstring
  to_number :: jsstring
  message_body :: jsstring
  message_type :: jsstring
  timestamp :: int
  direction :: jsstring

text \<open>A provider client; \<open>createDevice\<close> builds it with \<open>clientId: deviceId\<close>.\<close>

datatype client = Client jsstring

text \<open>
  The calls the manager makes on its collaborators, in the order it makes them: the
  write-only tables of the store (messages, stats, logs), the HTTP client and the
  provider clients. \<open>ClientSendContent\<close> is the provider's send operation called with
  something that is not a string. Console logging through \<open>logger\<close> is left out.
\<close>

datatype effect =
    MessageCreate message_data
  | StatsIncrement jsstring jsstring
  | LogCreate jsstring jsstring jsstring
  | AxiosPost "jsstring option" json
  | ClientInitialize jsstring
  | ClientDestroy jsstring
  | ClientSendMessage jsstring jsstring jsstring
  | ClientSendContent jsstring jsstring json

text \<open>
  What the outside world answers. \<open>client_initialize\<close> is the outcome of racing
  \<open>client.initialize()\<close> against the 60 second timer.
\<close>

datatype init_outcome = InitResolved | InitRejected js_error | InitTimeout

datatype http_outcome =
    Response nat json
  | NoResponse jsstring jsstring

record env =
  client_initialize :: init_outcome
  client_destroy :: "jsstring \<Rightarrow> js_error option"
  client_sendMessage :: "jsstring \<Rightarrow> jsstring \<Rightarrow> jsstring \<Rightarrow> js_error + sent_message"
  client_sendContent :: "jsstring \<Rightarrow> jsstring \<Rightarrow> json \<Rightarrow> js_error + sent_message"
  transport :: "jsstring option \<Rightarrow> json \<Rightarrow> http_outcome"
  uuidv4 :: "nat \<Rightarrow> jsstring"
  JSON_parse :: "jsstring \<Rightarrow> js_error + json"
  JSON_stringify :: "json \<Rightarrow> jsstring"

text \<open>
  The state: the manager's two maps (\<open>clients\<close> is a JavaScript Map, iterated in
  insertion order by \<open>disconnectAll\<close>), the \<open>devices\<close> table, the number of uuids drawn
  and the calls made so far.
\<close>

record world =
  clients :: "(jsstring \<times> client) list"
  initializationAttempts :: "jsstring \<rightharpoonup> nat"
  devices :: "jsstring \<rightharpoonup> device"
  uuid_count :: nat
  effects :: "effect list"

definition maxRetries :: nat where
  "maxRetries = 3"

subsection \<open>Map operations on \<open>clients\<close>\<close>

definition Map_has :: "(jsstring \<times> client) list \<Rightarrow> jsstring \<Rightarrow> bool" where
  "Map_has m k = (map_of m k \<noteq> None)"

definition Map_get :: "(jsstring \<times> client) list \<Rightarrow> jsstring \<Rightarrow> client option" where
  "Map_get m k = map_of m k"

fun Map_set :: "(jsstring \<times> client) list \<Rightarrow> jsstring \<Rightarrow> client \<Rightarrow> (jsstring \<times> client) list" where
  "Map_set [] k v = [(k, v)]"
| "Map_set ((k', v') # m) k v = (if k' = k then (k, v) # m else (k', v') # Map_set m k v)"

definition Map_delete :: "(jsstring \<times> client) list \<Rightarrow> jsstring \<Rightarrow> (jsstring \<times> client) list" where
  "Map_delete m k = filter (\<lambda>(k', v'). k' \<noteq> k) m"

subsection \<open>The store (models/database.js)\<close>

text \<open>\<open>deviceModel.update\<close> is an SQL UPDATE: it changes the row if there is one.\<close>

definition deviceModel_update :: "jsstring \<Rightarrow> (device \<Rightarrow> device) \<Rightarrow> world \<Rightarrow> world" where
  "deviceModel_update deviceId data w =
     (case devices w deviceId of
        None \<Rightarrow> w
      | Some row \<Rightarrow> w\<lparr>devices := (devices w)(deviceId \<mapsto> data row)\<rparr>)"

definition deviceModel_findById :: "world \<Rightarrow> jsstring \<Rightarrow> device option" where
  "deviceModel_findById w deviceId = devices w deviceId"

definition call :: "effect \<Rightarrow> world \<Rightarrow> world" where
  "call e w = w\<lparr>effects := effects w @ [e]\<rparr>"

text \<open>
  \<open>messageModel.create\<close> is an SQL INSERT into \<open>messages\<close>, whose \<open>device_id\<close> is a
  FOREIGN KEY into \<open>devices\<close>. better-sqlite3 enforces foreign keys unless they are
  switched off, which database.js does not do: without a row of that device the insert
  throws. The primary key is a fresh uuid and does not clash.
\<close>

definition messageModel_create :: "message_data \<Rightarrow> world \<Rightarrow> js_error + world" where
  "messageModel_create messageData w =
     (case devices w (device_id messageData) of
        None \<Rightarrow> Inl (Error (js ''FOREIGN KEY constraint failed''))
      | Some row \<Rightarrow> Inr (call (MessageCreate messageData) w))"

definition statsModel_increment :: "jsstring \<Rightarrow> jsstring \<Rightarrow> world \<Rightarrow> world" where
  "statsModel_increment deviceId field w = call (StatsIncrement deviceId field) w"

definition logModel_create :: "jsstring \<Rightarrow> jsstring \<Rightarrow> jsstring \<Rightarrow> world \<Rightarrow> world" where
  "logModel_create deviceId level text w = call (LogCreate deviceId level text) w"

section \<open>The manager (class WhatsAppManager)\<close>

subsection \<open>Payload construction\<close>

text \<open>\<open>x || fallback\<close> for a string that may be null, undefined or empty.\<close>

definition or_string :: "jsstring option \<Rightarrow> jsstring \<Rightarrow> jsstring" where
  "or_string x fallback = (case x of None \<Rightarrow> fallback | Some s \<Rightarrow> if s = [] then fallback else s)"

definition truthy_string :: "jsstring option \<Rightarrow> bool" where
  "truthy_string x = (case x of None \<Rightarrow> False | Some s \<Rightarrow> s \<noteq> [])"

text \<open>One round of the \<open>forEach\<close> in \<open>buildDynamicPayload\<close>, for the entry \<open>(key, value)\<close>.\<close>

definition substitute_variable :: "jsstring \<times> json \<Rightarrow> jsstring \<Rightarrow> jsstring" where
  "substitute_variable kv jsonString =
     (let regex = js ''{{'' @ fst kv @ js ''}}'' in
      case snd kv of
        JStr v \<Rightarrow> replace jsonString regex v
      | JNum v \<Rightarrow> replace jsonString regex (String_int v)
      | JBool v \<Rightarrow> replace jsonString regex (String_bool v)
      | _ \<Rightarrow> replace jsonString regex (js ''null''))"

definition buildDynamicPayload :: "env \<Rightarrow> jsstring \<Rightarrow> (jsstring \<times> json) list \<Rightarrow> js_error + json" where
  "buildDynamicPayload env template variables =
     JSON_parse env (fold substitute_variable variables template)"

text \<open>The variables object that \<open>forwardToWebhook\<close> passes, in the order of its keys.\<close>

definition template_variables :: "jsstring \<Rightarrow> device \<Rightarrow> msg \<Rightarrow> (jsstring \<times> json) list" where
  "template_variables deviceId device msg =
     [(js ''device_id'', JStr deviceId),
      (js ''device_name'', JStr (name device)),
      (js ''device_phone'', JStr (or_string (phone_number device) [])),
      (js ''message_id'', JStr (msg_id_serialized msg)),
      (js ''from'', JStr (msg_from msg)),
      (js ''to'', JStr (msg_to msg)),
      (js ''from_name'', JStr (or_string (notifyName msg) (split_first (msg_from msg) 0x40))),
      (js ''message'', JStr (msg_body msg)),
      (js ''message_type'', JStr (msg_type msg)),
      (js ''timestamp'', JNum (msg_timestamp msg)),
      (js ''is_group'', JBool (js_includes (msg_from msg) (js ''@g.us''))),
      (js ''chat_name'', JStr (or_string (notifyName msg) (split_first (msg_from msg) 0x40))),
      (js ''has_media'', JBool (hasMedia msg)),
      (js ''is_forwarded'', JBool (isForwarded msg)),
      (js ''is_status'', JBool (isStatus msg)),
      (js ''broadcast'', JBool (broadcast msg))]"

definition getDefaultPayload :: "jsstring \<Rightarrow> device \<Rightarrow> msg \<Rightarrow> json" where
  "getDefaultPayload deviceId device msg =
     JObj [(js ''device_id'', JStr deviceId),
           (js ''device_name'', JStr (name device)),
           (js ''from'', JStr (msg_from msg)),
           (js ''to'', JStr (msg_to msg)),
           (js ''message'', JStr (msg_body msg)),
           (js ''message_type'', JStr (msg_type msg)),
           (js ''timestamp'', JNum (msg_timestamp msg)),
           (js ''message_id'', JStr (msg_id_serialized msg)),
           (js ''from_name'', JStr (or_string (notifyName msg) (split_first (msg_from msg) 0x40)))]"

subsection \<open>Reply extraction\<close>

text \<open>
  \<open>responseData.reply || responseData.message || responseData.response ||
  responseData.text || null\<close>: the first truthy value, whatever its type. Reading a
  property of null throws.
\<close>

definition or_value :: "json option \<Rightarrow> json \<Rightarrow> json" where
  "or_value x rest = (case x of None \<Rightarrow> rest | Some v \<Rightarrow> if truthy v then v else rest)"

definition autodetect :: "json \<Rightarrow> js_error + json" where
  "autodetect responseData =
     (if responseData = JNull
      then Inl (TypeError (js ''Cannot read properties of null (reading 'reply')''))
      else Inr (or_value (property responseData (js ''reply''))
               (or_value (property responseData (js ''message''))
               (or_value (property responseData (js ''response''))
               (or_value (property responseData (js ''text'')) JNull)))))"

text \<open>
  The loop over the path segments; \<open>None\<close> is its \<open>return null\<close>. The operator \<open>in\<close>
  also finds the properties an object or array inherits from its prototype
  (\<open>toString\<close>, \<open>constructor\<close>, \<open>__proto__\<close>, ...) and the \<open>length\<close> of an array. Their
  values are functions, numbers and prototype objects, from which no string is reached,
  so the function returns null for them as it does for a missing property.
\<close>

fun traverse :: "json \<Rightarrow> jsstring list \<Rightarrow> json option" where
  "traverse current [] = Some current"
| "traverse current (path # paths) =
     (if truthy current \<and> typeof_object current
      then (case property current path of
              Some v \<Rightarrow> traverse v paths
            | None \<Rightarrow> None)
      else None)"

definition extractResponseMessage :: "json \<Rightarrow> jsstring option \<Rightarrow> js_error + json" where
  "extractResponseMessage responseData responsePath =
     (case responsePath of
        None \<Rightarrow> autodetect responseData
      | Some p \<Rightarrow>
          if p = [] \<or> trim p = [] then autodetect responseData
          else (case traverse responseData (split p 0x2E) of
                  Some (JStr current) \<Rightarrow> Inr (JStr current)
                | _ \<Rightarrow> Inr JNull))"

subsection \<open>Sending\<close>

definition sendMessage :: "env \<Rightarrow> jsstring \<Rightarrow> jsstring \<Rightarrow> jsstring \<Rightarrow> world \<Rightarrow> (js_error + sent_message) \<times> world" where
  "sendMessage env deviceId to body w =
     (case Map_get (clients w) deviceId of
        None \<Rightarrow> (Inl (Error (js ''Device not found'')), w)
      | Some client \<Rightarrow>
          (case deviceModel_findById w deviceId of
             None \<Rightarrow>
               (Inl (TypeError (js ''Cannot read properties of undefined (reading 'status')'')), w)
           | Some device \<Rightarrow>
               if status device \<noteq> js ''connected''
               then (Inl (Error (js ''Device not connected'')), w)
               else
                 (let chatId = (if js_includes to (js ''@'') then to else to @ js ''@c.us'');
                      w1 = call (ClientSendMessage deviceId chatId body) w
                  in case client_sendMessage env deviceId chatId body of
                       Inl error \<Rightarrow> (Inl error, w1)
                     | Inr sentMsg \<Rightarrow>
                         (let messageData =
                                \<lparr>row_id = uuidv4 env (uuid_count w1),
                                 device_id = deviceId,
                                 message_id = sent_id_serialized sentMsg,
                                 from_number = sent_from sentMsg,
                                 to_number = sent_to sentMsg,
                                 message_body = body,
                                 message_type = js ''chat'',
                                 timestamp = sent_timestamp sentMsg,
                                 direction = js ''outgoing''\<rparr>;
                              w2 = w1\<lparr>uuid_count := Suc (uuid_count w1)\<rparr>
                          in case messageModel_create messageData w2 of
                               Inl error \<Rightarrow> (Inl error, w2)
                             | Inr w3 \<Rightarrow>
                                 (Inr sentMsg,
                                  statsModel_increment deviceId (js ''messages_sent'') w3)))))"

text \<open>
  \<open>sendMessage\<close> called with a truthy \<open>message\<close> that is not a string, as the services
  revision does with whatever \<open>extractResponseMessage\<close> returns. The guards and the
  address are the same. The store binds a number, written to the TEXT column as its
  decimal text, and rejects a boolean, an array and an object.
\<close>

definition sendMessage_content :: "env \<Rightarrow> jsstring \<Rightarrow> jsstring \<Rightarrow> json \<Rightarrow> world \<Rightarrow> (js_error + sent_message) \<times> world" where
  "sendMessage_content env deviceId to content w =
     (case Map_get (clients w) deviceId of
        None \<Rightarrow> (Inl (Error (js ''Device not found'')), w)
      | Some client \<Rightarrow>
          (case deviceModel_findById w deviceId of
             None \<Rightarrow>
               (Inl (TypeError (js ''Cannot read properties of undefined (reading 'status')'')), w)
           | Some device \<Rightarrow>
               if status device \<noteq> js ''connected''
               then (Inl (Error (js ''Device not connected'')), w)
               else
                 (let chatId = (if js_includes to (js ''@'') then to else to @ js ''@c.us'');
                      w1 = call (ClientSendContent deviceId chatId content) w
                  in case client_sendContent env deviceId chatId content of
                       Inl error \<Rightarrow> (Inl error, w1)
                     | Inr sentMsg \<Rightarrow>
                         (let w2 = w1\<lparr>uuid_count := Suc (uuid_count w1)\<rparr> in
                          case content of
                            JNum n \<Rightarrow>
                              (case messageModel_create
                                      \<lparr>row_id = uuidv4 env (uuid_count w1),
                                       device_id = deviceId,
                                       message_id = sent_id_serialized sentMsg,
                                       from_number = sent_from sentMsg,
                                       to_number = sent_to sentMsg,
                                       message_body = String_int n,
                                       message_type = js ''chat'',
                                       timestamp = sent_timestamp sentMsg,
                                       direction = js ''outgoing''\<rparr> w2 of
                                 Inl error \<Rightarrow> (Inl error, w2)
                               | Inr w3 \<Rightarrow>
                                   (Inr sentMsg,
                                    statsModel_increment deviceId (js ''messages_sent'') w3))
                          | _ \<Rightarrow>
                              (Inl (TypeError (js ''SQLite3 can only bind numbers, strings, bigints, buffers, and null'')),
                               w2)))))"

subsection \<open>The webhook pipeline\<close>

text \<open>
  The body of the \<open>try\<close> in \<open>handleWebhookResponse\<close>: the error thrown, if any, and the
  state reached. Calling \<open>trim\<close> on a truthy value that is not a string throws.
\<close>

definition handleWebhookResponse_try :: "env \<Rightarrow> jsstring \<Rightarrow> device \<Rightarrow> msg \<Rightarrow> json \<Rightarrow> world \<Rightarrow> js_error option \<times> world" where
  "handleWebhookResponse_try env deviceId device msg responseData w =
     (case extractResponseMessage responseData (webhook_response_path device) of
        Inl error \<Rightarrow> (Some error, w)
      | Inr replyMessage \<Rightarrow>
          if \<not> truthy replyMessage
          then (None, logModel_create deviceId (js ''warn'')
                        (js ''No reply message found in response'') w)
          else
            (case replyMessage of
               JStr reply \<Rightarrow>
                 if trim reply \<noteq> []
                 then (case sendMessage env deviceId (msg_from msg) reply w of
                         (Inl error, w1) \<Rightarrow> (Some error, w1)
                       | (Inr sentMsg, w1) \<Rightarrow>
                           (None, logModel_create deviceId (js ''info'')
                                    (js ''Auto-reply sent to '' @ msg_from msg) w1))
                 else (None, logModel_create deviceId (js ''warn'')
                               (js ''No reply message found in response'') w)
             | _ \<Rightarrow> (Some (TypeError (js ''replyMessage.trim is not a function'')), w)))"

definition handleWebhookResponse :: "env \<Rightarrow> jsstring \<Rightarrow> device \<Rightarrow> msg \<Rightarrow> json \<Rightarrow> world \<Rightarrow> world" where
  "handleWebhookResponse env deviceId device msg responseData w =
     (case handleWebhookResponse_try env deviceId device msg responseData w of
        (None, w1) \<Rightarrow> w1
      | (Some error, w1) \<Rightarrow>
          logModel_create deviceId (js ''error'') (js ''Auto-reply failed: '' @ message error) w1)"

text \<open>
  The payload that \<open>forwardToWebhook\<close> settles on: the rendered template, or the default
  payload when no template is configured or \<open>buildDynamicPayload\<close> throws.
\<close>

definition chooseWebhookPayload :: "env \<Rightarrow> jsstring \<Rightarrow> device \<Rightarrow> msg \<Rightarrow> world \<Rightarrow> json \<times> world" where
  "chooseWebhookPayload env deviceId device msg w =
     (case webhook_body_template device of
        None \<Rightarrow> (getDefaultPayload deviceId device msg, w)
      | Some template \<Rightarrow>
          if template = [] then (getDefaultPayload deviceId device msg, w)
          else
            (case buildDynamicPayload env template (template_variables deviceId device msg) of
               Inr payload \<Rightarrow>
                 (payload, logModel_create deviceId (js ''info'') (js ''Custom payload built'') w)
             | Inl error \<Rightarrow>
                 (getDefaultPayload deviceId device msg,
                  logModel_create deviceId (js ''warn'') (js ''Using default payload'')
                    (logModel_create deviceId (js ''error'')
                       (js ''Payload error: '' @ message error) w))))"

text \<open>
  \<open>axios.post\<close> with \<open>validateStatus: (status) => status < 600\<close>: a response with such a
  status resolves; any other response, and a request that got no response, rejects.
\<close>

datatype axios_error = WithResponse nat json | WithoutResponse jsstring jsstring

definition axios_post :: "env \<Rightarrow> jsstring option \<Rightarrow> json \<Rightarrow> axios_error + nat \<times> json" where
  "axios_post env url payload =
     (case transport env url payload of
        Response st body \<Rightarrow> if st < 600 then Inr (st, body) else Inl (WithResponse st body)
      | NoResponse code text \<Rightarrow> Inl (WithoutResponse code text))"

definition errorMsg :: "env \<Rightarrow> axios_error \<Rightarrow> jsstring" where
  "errorMsg env error =
     (case error of
        WithResponse st body \<Rightarrow> js ''HTTP '' @ String_nat st @ js '': '' @ JSON_stringify env body
      | WithoutResponse code text \<Rightarrow>
          if code = js ''ECONNREFUSED''
          then js ''Connection refused - webhook server unreachable''
          else text)"

definition forwardToWebhook :: "env \<Rightarrow> jsstring \<Rightarrow> device \<Rightarrow> msg \<Rightarrow> message_data \<Rightarrow> world \<Rightarrow> world" where
  "forwardToWebhook env deviceId device msg messageData w =
     (case chooseWebhookPayload env deviceId device msg w of
        (webhookPayload, w1) \<Rightarrow>
          (let w2 = logModel_create deviceId (js ''info'') (js ''Calling webhook...'') w1;
               w3 = call (AxiosPost (webhook_url device) webhookPayload) w2
           in case axios_post env (webhook_url device) webhookPayload of
                Inr (st, body) \<Rightarrow>
                  (let w4 = statsModel_increment deviceId (js ''webhook_calls'') w3 in
                   if 200 \<le> st \<and> st < 300
                   then
                     (let w5 = logModel_create deviceId (js ''info'')
                                 (js ''Webhook success: '' @ String_nat st) w4
                      in if webhook_response_enabled device \<noteq> 0 \<and> truthy body
                         then handleWebhookResponse env deviceId device msg body w5
                         else w5)
                   else logModel_create deviceId (js ''warn'')
                          (js ''Webhook returned '' @ String_nat st) w4)
              | Inl error \<Rightarrow>
                  logModel_create deviceId (js ''error'')
                    (js ''Webhook failed: '' @ errorMsg env error) w3))"

text \<open>
  \<open>handleIncomingMessage\<close>. What its \<open>catch\<close> catches is the error of the insert;
  \<open>forwardToWebhook\<close> throws nothing.
\<close>

definition handleIncomingMessage :: "env \<Rightarrow> jsstring \<Rightarrow> msg \<Rightarrow> world \<Rightarrow> world" where
  "handleIncomingMessage env deviceId msg w =
     (if isStatus msg then w
      else
        (let messageData =
               \<lparr>row_id = uuidv4 env (uuid_count w),
                device_id = deviceId,
                message_id = msg_id_serialized msg,
                from_number = msg_from msg,
                to_number = msg_to msg,
                message_body = msg_body msg,
                message_type = msg_type msg,
                timestamp = msg_timestamp msg,
                direction = js ''incoming''\<rparr>;
             w1 = w\<lparr>uuid_count := Suc (uuid_count w)\<rparr>
         in case messageModel_create messageData w1 of
              Inl error \<Rightarrow>
                logModel_create deviceId (js ''error'')
                  (js ''Message handling error: '' @ message error) w1
            | Inr w2 \<Rightarrow>
                (let w3 = statsModel_increment deviceId (js ''messages_received'') w2;
                     w4 = logModel_create deviceId (js ''info'')
                            (js ''Received from '' @ msg_from msg @ js '': '' @ msg_type msg) w3
                 in case deviceModel_findById w4 deviceId of
                      None \<Rightarrow> w4
                    | Some device \<Rightarrow>
                        if webhook_enabled device \<noteq> 0 \<and> truthy_string (webhook_url device)
                        then forwardToWebhook env deviceId device msg messageData w4
                        else w4)))"

subsection \<open>The webhook pipeline in services/whatsapp-manager.js\<close>

text \<open>
  \<open>buildDynamicPayload\<close> of this revision leaves the text as it is for a value that is
  neither a string, a number, a boolean, null nor undefined.
\<close>

definition substitute_variable_services :: "jsstring \<times> json \<Rightarrow> jsstring \<Rightarrow> jsstring" where
  "substitute_variable_services kv jsonString =
     (let regex = js ''{{'' @ fst kv @ js ''}}'' in
      case snd kv of
        JStr v \<Rightarrow> replace jsonString regex v
      | JNum v \<Rightarrow> replace jsonString regex (String_int v)
      | JBool v \<Rightarrow> replace jsonString regex (String_bool v)
      | JNull \<Rightarrow> replace jsonString regex (js ''null'')
      | _ \<Rightarrow> jsonString)"

definition buildDynamicPayload_services :: "env \<Rightarrow> jsstring \<Rightarrow> (jsstring \<times> json) list \<Rightarrow> js_error + json" where
  "buildDynamicPayload_services env template variables =
     JSON_parse env (fold substitute_variable_services variables template)"

definition template_variables_services :: "jsstring \<Rightarrow> device \<Rightarrow> msg \<Rightarrow> (jsstring \<times> json) list" where
  "template_variables_services deviceId device msg =
     [(js ''device_id'', JStr deviceId),
      (js ''device_name'', JStr (name device)),
      (js ''device_phone'', (case phone_number device of None \<Rightarrow> JNull | Some p \<Rightarrow> JStr p)),
      (js ''message_id'', JStr (msg_id_serialized msg)),
      (js ''from'', JStr (msg_from msg)),
      (js ''to'', JStr (msg_to msg)),
      (js ''from_name'', JStr (or_string (notifyName msg) (js ''Unknown''))),
      (js ''message'', JStr (msg_body msg)),
      (js ''message_type'', JStr (msg_type msg)),
      (js ''timestamp'', JNum (msg_timestamp msg)),
      (js ''is_group'', JBool (js_includes (msg_from msg) (js ''@g.us''))),
      (js ''chat_name'', JStr (or_string (notifyName msg) (msg_from msg))),
      (js ''has_media'', JBool (hasMedia msg)),
      (js ''is_forwarded'', JBool (isForwarded msg)),
      (js ''is_status'', JBool (isStatus msg)),
      (js ''broadcast'', JBool (broadcast msg))]"

definition getDefaultPayload_services :: "jsstring \<Rightarrow> device \<Rightarrow> msg \<Rightarrow> json" where
  "getDefaultPayload_services deviceId device msg =
     JObj [(js ''device_id'', JStr deviceId),
           (js ''device_name'', JStr (name device)),
           (js ''from'', JStr (msg_from msg)),
           (js ''to'', JStr (msg_to msg)),
           (js ''message'', JStr (msg_body msg)),
           (js ''message_type'', JStr (msg_type msg)),
           (js ''timestamp'', JNum (msg_timestamp msg)),
           (js ''message_id'', JStr (msg_id_serialized msg))]"

text \<open>
  \<open>extractResponseMessage\<close> of this revision tests \<open>!responsePath\<close> only and probes
  reply, message, response.
\<close>

definition autodetect_services :: "json \<Rightarrow> js_error + json" where
  "autodetect_services responseData =
     (if responseData = JNull
      then Inl (TypeError (js ''Cannot read properties of null (reading 'reply')''))
      else Inr (or_value (property responseData (js ''reply''))
               (or_value (property responseData (js ''message''))
               (or_value (property responseData (js ''response'')) JNull))))"

definition extractResponseMessage_services :: "json \<Rightarrow> jsstring option \<Rightarrow> js_error + json" where
  "extractResponseMessage_services responseData responsePath =
     (case responsePath of
        None \<Rightarrow> autodetect_services responseData
      | Some p \<Rightarrow>
          if p = [] then autodetect_services responseData
          else (case traverse responseData (split p 0x2E) of
                  Some (JStr current) \<Rightarrow> Inr (JStr current)
                | _ \<Rightarrow> Inr JNull))"

definition chooseWebhookPayload_services :: "env \<Rightarrow> jsstring \<Rightarrow> device \<Rightarrow> msg \<Rightarrow> world \<Rightarrow> json \<times> world" where
  "chooseWebhookPayload_services env deviceId device msg w =
     (case webhook_body_template device of
        None \<Rightarrow> (getDefaultPayload_services deviceId device msg, w)
      | Some template \<Rightarrow>
          if template = [] then (getDefaultPayload_services deviceId device msg, w)
          else
            (case buildDynamicPayload_services env template
                    (template_variables_services deviceId device msg) of
               Inr payload \<Rightarrow>
                 (payload,
                  logModel_create deviceId (js ''info'') (js ''Custom payload built successfully'') w)
             | Inl error \<Rightarrow>
                 (getDefaultPayload_services deviceId device msg,
                  logModel_create deviceId (js ''warn'') (js ''Using default payload as fallback'')
                    (logModel_create deviceId (js ''error'')
                       (js ''Payload build failed: '' @ message error) w))))"

text \<open>
  The block that handles the reply: the error thrown, if any, and the state reached.
  Every truthy reply goes to \<open>sendMessage\<close>, untrimmed and whatever its type; after the
  send, \<open>replyMessage.substring(0, 50)\<close> throws for a reply that is not a string. The
  double quote of the log text is the code unit 0x22.
\<close>

definition reply_services :: "env \<Rightarrow> jsstring \<Rightarrow> device \<Rightarrow> msg \<Rightarrow> json \<Rightarrow> world \<Rightarrow> js_error option \<times> world" where
  "reply_services env deviceId device msg responseData w =
     (case extractResponseMessage_services responseData (webhook_response_path device) of
        Inl error \<Rightarrow> (Some error, w)
      | Inr replyMessage \<Rightarrow>
          if \<not> truthy replyMessage
          then (None, logModel_create deviceId (js ''warn'')
                        (js ''No reply message in webhook response'') w)
          else
            (case replyMessage of
               JStr reply \<Rightarrow>
                 (case sendMessage env deviceId (msg_from msg) reply w of
                    (Inl error, w1) \<Rightarrow> (Some error, w1)
                  | (Inr sentMsg, w1) \<Rightarrow>
                      (None, logModel_create deviceId (js ''info'')
                               (js ''Auto-reply sent: '' @ [0x22] @ take 50 reply @ [0x22]
                                @ js ''...'') w1))
             | _ \<Rightarrow>
                 (case sendMessage_content env deviceId (msg_from msg) replyMessage w of
                    (Inl error, w1) \<Rightarrow> (Some error, w1)
                  | (Inr sentMsg, w1) \<Rightarrow>
                      (Some (TypeError (js ''replyMessage.substring is not a function'')), w1))))"

definition errorMsg_services :: "env \<Rightarrow> axios_error \<Rightarrow> jsstring" where
  "errorMsg_services env error =
     (case error of
        WithResponse st body \<Rightarrow> String_nat st @ js '' - '' @ JSON_stringify env body
      | WithoutResponse code text \<Rightarrow> text)"

text \<open>\<open>`${device.webhook_url}`\<close> in a log text.\<close>

definition String_url :: "jsstring option \<Rightarrow> jsstring" where
  "String_url url = (case url of None \<Rightarrow> js ''null'' | Some u \<Rightarrow> u)"

definition forwardToWebhook_services :: "env \<Rightarrow> jsstring \<Rightarrow> device \<Rightarrow> msg \<Rightarrow> message_data \<Rightarrow> world \<Rightarrow> world" where
  "forwardToWebhook_services env deviceId device msg messageData w =
     (case chooseWebhookPayload_services env deviceId device msg
             (logModel_create deviceId (js ''info'') (js ''Building webhook payload...'') w) of
        (webhookPayload, w1) \<Rightarrow>
          (let w2 = logModel_create deviceId (js ''info'')
                      (js ''Calling webhook: '' @ String_url (webhook_url device)) w1;
               w3 = call (AxiosPost (webhook_url device) webhookPayload) w2
           in case axios_post env (webhook_url device) webhookPayload of
                Inr (st, body) \<Rightarrow>
                  (let w4 = statsModel_increment deviceId (js ''webhook_calls'') w3;
                       w5 = (if 200 \<le> st \<and> st < 300
                             then logModel_create deviceId (js ''info'')
                                    (js ''Webhook success: '' @ String_nat st) w4
                             else logModel_create deviceId (js ''warn'')
                                    (js ''Webhook status '' @ String_nat st @ js '': ''
                                     @ JSON_stringify env body) w4)
                   in if webhook_response_enabled device \<noteq> 0 \<and> truthy body
                         \<and> 200 \<le> st \<and> st < 300
                      then (case reply_services env deviceId device msg body w5 of
                              (None, w6) \<Rightarrow> w6
                            | (Some error, w6) \<Rightarrow>
                                logModel_create deviceId (js ''error'')
                                  (js ''Webhook failed: '' @ message error) w6)
                      else w5)
              | Inl error \<Rightarrow>
                  logModel_create deviceId (js ''error'')
                    (js ''Webhook failed: '' @ errorMsg_services env error) w3))"

text \<open>\<open>handleIncomingMessage\<close> of this revision has no test of \<open>msg.isStatus\<close>.\<close>

definition handleIncomingMessage_services :: "env \<Rightarrow> jsstring \<Rightarrow> msg \<Rightarrow> world \<Rightarrow> world" where
  "handleIncomingMessage_services env deviceId msg w =
     (let messageData =
            \<lparr>row_id = uuidv4 env (uuid_count w),
             device_id = deviceId,
             message_id = msg_id_serialized msg,
             from_number = msg_from msg,
             to_number = msg_to msg,
             message_body = msg_body msg,
             message_type = msg_type msg,
             timestamp = msg_timestamp msg,
             direction = js ''incoming''\<rparr>;
          w1 = w\<lparr>uuid_count := Suc (uuid_count w)\<rparr>
      in case messageModel_create messageData w1 of
           Inl error \<Rightarrow>
             logModel_create deviceId (js ''error'')
               (js ''Error handling message: '' @ message error) w1
         | Inr w2 \<Rightarrow>
             (let w3 = statsModel_increment deviceId (js ''messages_received'') w2;
                  w4 = logModel_create deviceId (js ''info'')
                         (js ''Received message from '' @ msg_from msg) w3
              in case deviceModel_findById w4 deviceId of
                   None \<Rightarrow> w4
                 | Some device \<Rightarrow>
                     if webhook_enabled device \<noteq> 0 \<and> truthy_string (webhook_url device)
                     then forwardToWebhook_services env deviceId device msg messageData w4
                     else w4))"

subsection \<open>Session lifecycle\<close>

definition initializeWithTimeout :: "env \<Rightarrow> client \<Rightarrow> jsstring \<Rightarrow> js_error option" where
  "initializeWithTimeout env client deviceId =
     (case client_initialize env of
        InitResolved \<Rightarrow> None
      | InitRejected error \<Rightarrow> Some error
      | InitTimeout \<Rightarrow> Some (Error (js ''Initialization timeout'')))"

text \<open>\<open>this.initializationAttempts.get(deviceId) || 0\<close>.\<close>

definition initAttemptCount :: "world \<Rightarrow> jsstring \<Rightarrow> nat" where
  "initAttemptCount w deviceId =
     (case initializationAttempts w deviceId of None \<Rightarrow> 0 | Some n \<Rightarrow> n)"

definition createDevice :: "env \<Rightarrow> jsstring \<Rightarrow> jsstring \<Rightarrow> world \<Rightarrow> (js_error + client) \<times> world" where
  "createDevice env deviceId device_name w =
     (if Map_has (clients w) deviceId then (Inl (Error (js ''Device already exists'')), w)
      else
        (let attempts = initAttemptCount w deviceId in
         if attempts \<ge> maxRetries
         then (Inl (Error (js ''Maximum initialization attempts reached'')), w)
         else
           (let client = Client deviceId;
                w1 = w\<lparr>clients := Map_set (clients w) deviceId client\<rparr>;
                w2 = deviceModel_update deviceId (\<lambda>row. row\<lparr>status := js ''initializing''\<rparr>) w1;
                w3 = call (ClientInitialize deviceId) w2
            in case initializeWithTimeout env client deviceId of
                 None \<Rightarrow>
                   (Inr client,
                    w3\<lparr>initializationAttempts := (initializationAttempts w3)(deviceId := None)\<rparr>)
               | Some error \<Rightarrow>
                   (let w4 = w3\<lparr>clients := Map_delete (clients w3) deviceId\<rparr>;
                        w5 = w4\<lparr>initializationAttempts :=
                                  (initializationAttempts w4)(deviceId \<mapsto> attempts + 1)\<rparr>;
                        w6 = call (ClientDestroy deviceId) w5
                    in (Inl error, w6)))))"

text \<open>
  \<open>disconnectDevice\<close> calls \<open>client.destroy()\<close> and, once that has settled, runs the rest
  of its \<open>try\<close> block, or its \<open>catch\<close>, which only writes to the console.
\<close>

definition disconnect_settled :: "env \<Rightarrow> jsstring \<Rightarrow> world \<Rightarrow> world" where
  "disconnect_settled env deviceId w =
     (case client_destroy env deviceId of
        None \<Rightarrow>
          (let w1 = w\<lparr>clients := Map_delete (clients w) deviceId\<rparr>;
               w2 = deviceModel_update deviceId
                      (\<lambda>row. row\<lparr>status := js ''disconnected'', qr_code := None\<rparr>) w1
           in logModel_create deviceId (js ''info'') (js ''Device disconnected'') w2)
      | Some error \<Rightarrow> w)"

definition disconnectDevice :: "env \<Rightarrow> jsstring \<Rightarrow> world \<Rightarrow> world" where
  "disconnectDevice env deviceId w =
     (case Map_get (clients w) deviceId of
        None \<Rightarrow> w
      | Some client \<Rightarrow> disconnect_settled env deviceId (call (ClientDestroy deviceId) w))"

text \<open>
  \<open>disconnectAll\<close> starts \<open>disconnectDevice\<close> for every key of \<open>clients\<close>: each runs up to
  its \<open>await client.destroy()\<close>, so all teardowns are started, in the order of the map,
  before any has settled. \<open>Promise.all\<close> then waits for every one of them; none rejects.
  The continuations touch only their own device; they are run here in the order of the
  map.
\<close>

definition disconnectAll :: "env \<Rightarrow> world \<Rightarrow> world" where
  "disconnectAll env w =
     (let deviceIds = map fst (clients w);
          w1 = fold (\<lambda>deviceId. call (ClientDestroy deviceId)) deviceIds w
      in fold (disconnect_settled env) deviceIds w1)"

subsection \<open>Reachable states\<close>

text \<open>
  The states the manager can be in: it starts with both maps empty (the constructor)
  and any content of the devices table, and then runs its operations one after the
  other. \<open>restartDevice\<close> is \<open>disconnectDevice\<close> followed by \<open>createDevice\<close>. The rows
  of the devices table are also written by the provider's event handlers and by the
  administrative routes.
\<close>

inductive reachable :: "world \<Rightarrow> bool" where
  constructed:
    "reachable \<lparr>clients = [], initializationAttempts = Map.empty, devices = rows,
                uuid_count = 0, effects = []\<rparr>"
| created: "reachable w \<Longrightarrow> reachable (snd (createDevice env deviceId device_name w))"
| disconnected: "reachable w \<Longrightarrow> reachable (disconnectDevice env deviceId w)"
| disconnected_all: "reachable w \<Longrightarrow> reachable (disconnectAll env w)"
| sent: "reachable w \<Longrightarrow> reachable (snd (sendMessage env deviceId to body w))"
| received: "reachable w \<Longrightarrow> reachable (handleIncomingMessage env deviceId msg w)"
| stored: "reachable w \<Longrightarrow> reachable (w\<lparr>devices := rows\<rparr>)"

text \<open>While a device has an active session, no failed attempt is on record for it.\<close>

definition idle_while_active :: "world \<Rightarrow> bool" where
  "idle_while_active w \<longleftrightarrow>
     (\<forall>d. Map_has (clients w) d \<longrightarrow> initializationAttempts w d = None)"

section \<open>Reading the record of calls\<close>

text \<open>The calls on the provider's send operation: device, address, text.\<close>

fun sends :: "effect list \<Rightarrow> (jsstring \<times> jsstring \<times> jsstring) list" where
  "sends [] = []"
| "sends (ClientSendMessage deviceId chatId body # es) = (deviceId, chatId, body) # sends es"
| "sends (e # es) = sends es"

text \<open>The HTTP requests: URL and payload.\<close>

fun posts :: "effect list \<Rightarrow> (jsstring option \<times> json) list" where
  "posts [] = []"
| "posts (AxiosPost url payload # es) = (url, payload) # posts es"
| "posts (e # es) = posts es"

text \<open>The rows written to the messages table.\<close>

fun creates :: "effect list \<Rightarrow> message_data list" where
  "creates [] = []"
| "creates (MessageCreate messageData # es) = messageData # creates es"
| "creates (e # es) = creates es"

text \<open>The rows written with direction \<open>incoming\<close>.\<close>

definition incoming :: "effect list \<Rightarrow> message_data list" where
  "incoming es = filter (\<lambda>m. direction m = js ''incoming'') (creates es)"

text \<open>The teardowns started.\<close>

fun destroys :: "effect list \<Rightarrow> jsstring list" where
  "destroys [] = []"
| "destroys (ClientDestroy deviceId # es) = deviceId # destroys es"
| "destroys (e # es) = destroys es"

text \<open>How often a counter of a device has been incremented.\<close>

definition increments :: "jsstring \<Rightarrow> jsstring \<Rightarrow> effect list \<Rightarrow> nat" where
  "increments deviceId field es = count_list es (StatsIncrement deviceId field)"

section \<open>Concrete inputs\<close>

text \<open>
  A device row with the webhook and the auto-reply switched on, an inbound chat
  message with the row written for it, the state of a new manager, and a state in
  which the device has an active session.
\<close>

definition device1 :: device where
  "device1 =
     \<lparr>name = js ''Customer Service 1'',
      phone_number = Some (js ''628123456789''),
      status = js ''connected'',
      webhook_url = Some (js ''http://hooks.test/in''),
      webhook_enabled = 1,
      webhook_response_enabled = 1,
      webhook_body_template = None,
      webhook_response_path = Some (js ''data.reply''),
      qr_code = None\<rparr>"

definition msg1 :: msg where
  "msg1 =
     \<lparr>msg_id_serialized = js ''false_6281@c.us_3EB0'',
      msg_from = js ''6281@c.us'',
      msg_to = js ''628123456789@c.us'',
      msg_body = js ''hi'',
      msg_type = js ''chat'',
      msg_timestamp = 1701234567,
      notifyName = Some (js ''John''),
      hasMedia = False,
      isForwarded = False,
      isStatus = False,
      broadcast = False\<rparr>"

definition messageData1 :: message_data where
  "messageData1 =
     \<lparr>row_id = js ''uuid-0'',
      device_id = js ''device-1'',
      message_id = js ''false_6281@c.us_3EB0'',
      from_number = js ''6281@c.us'',
      to_number = js ''628123456789@c.us'',
      message_body = js ''hi'',
      message_type = js ''chat'',
      timestamp = 1701234567,
      direction = js ''incoming''\<rparr>"

definition world0 :: world where
  "world0 =
     \<lparr>clients = [],
      initializationAttempts = Map.empty,
      devices = [js ''device-1'' \<mapsto> device1],
      uuid_count = 0,
      effects = []\<rparr>"

definition world1 :: world where
  "world1 =
     \<lparr>clients = [(js ''device-1'', Client (js ''device-1''))],
      initializationAttempts = Map.empty,
      devices = [js ''device-1'' \<mapsto> device1],
      uuid_count = 0,
      effects = []\<rparr>"




text \<open>
  An outside world in which everything succeeds and the webhook answers 200 with
  \<open>{"data":{"reply":"ok!"}}\<close>; the same with a webhook server that refuses the
  connection; and the same with a provider whose initialization times out and whose
  teardown fails.
\<close>

definition env_ok :: env where
  "env_ok =
     \<lparr>client_initialize = InitResolved,
      client_destroy = (\<lambda>deviceId. None),
      client_sendMessage = (\<lambda>deviceId chatId body.
         Inr \<lparr>sent_id_serialized = js ''true_'' @ chatId @ js ''_3EB1'',
              sent_from = js ''628123456789@c.us'',
              sent_to = chatId,
              sent_timestamp = 1701234568\<rparr>),
      client_sendContent = (\<lambda>deviceId chatId content.
         Inr \<lparr>sent_id_serialized = js ''true_'' @ chatId @ js ''_3EB2'',
              sent_from = js ''628123456789@c.us'',
              sent_to = chatId,
              sent_timestamp = 1701234569\<rparr>),
      transport = (\<lambda>url payload.
         Response 200 (JObj [(js ''data'', JObj [(js ''reply'', JStr (js ''ok!''))])])),
      uuidv4 = (\<lambda>n. js ''uuid-'' @ String_nat n),
      JSON_parse = (\<lambda>text. Inl (SyntaxError (js ''Unexpected token''))),
      JSON_stringify = (\<lambda>v. js ''null'')\<rparr>"

definition env_refused :: env where
  "env_refused =
     env_ok\<lparr>transport := (\<lambda>url payload.
        NoResponse (js ''ECONNREFUSED'') (js ''connect ECONNREFUSED 127.0.0.1:80''))\<rparr>"

definition env_failing :: env where
  "env_failing =
     env_ok\<lparr>client_initialize := InitTimeout,
            client_destroy := (\<lambda>deviceId. Some (Error (js ''Protocol error'')))\<rparr>"

section \<open>Properties\<close>

subsection \<open>Strings\<close>

lemma of_char_less_256: "(of_char c :: nat) < 256"
proof -
  have "(of_char c :: nat) mod 256 < 256" by simp
  then show ?thesis by (simp only: of_char_mod_256)
qed

lemma js_eq_iff [simp]: "js a = js b \<longleftrightarrow> a = b"
proof -
  have inj: "inj (\<lambda>c::char. (word_of_nat (of_char c) :: 16 word))"
  proof (rule injI)
    fix x y :: char
    assume "(word_of_nat (of_char x) :: 16 word) = word_of_nat (of_char y)"
    then have "take_bit 16 (of_char x :: nat) = take_bit 16 (of_char y :: nat)"
      by (simp add: word_of_nat_eq_iff)
    moreover have "(of_char x :: nat) < 2 ^ 16"
      by (rule less_trans[OF of_char_less_256]) simp
    moreover have "(of_char y :: nat) < 2 ^ 16"
      by (rule less_trans[OF of_char_less_256]) simp
    ultimately have "(of_char x :: nat) = of_char y"
      by (simp add: take_bit_nat_eq_self)
    then show "x = y" by simp
  qed
  show ?thesis unfolding js_def by (simp add: inj_map_eq_map[OF inj])
qed

lemma js_Nil_iff [simp]: "js s = [] \<longleftrightarrow> s = []" "[] = js s \<longleftrightarrow> s = []"
  by (auto simp: js_def)


lemma trim_Nil [simp]: "trim [] = []"
  by (simp add: trim_def)

lemma js_includes_char: "js_includes s [c] \<longleftrightarrow> c \<in> set s"
  by (induction s) auto

lemma at_sign: "js ''@'' = [0x40]"
  by (simp add: js_def)

subsection \<open>The record of calls\<close>

lemma sends_append [simp]: "sends (xs @ ys) = sends xs @ sends ys"
  by (induction xs rule: sends.induct) auto

lemma posts_append [simp]: "posts (xs @ ys) = posts xs @ posts ys"
  by (induction xs rule: posts.induct) auto

lemma creates_append [simp]: "creates (xs @ ys) = creates xs @ creates ys"
  by (induction xs rule: creates.induct) auto

lemma destroys_append [simp]: "destroys (xs @ ys) = destroys xs @ destroys ys"
  by (induction xs rule: destroys.induct) auto

lemma destroys_map [simp]: "destroys (map ClientDestroy ds) = ds"
  by (induction ds) simp_all

lemma destroys_map_comp [simp]: "destroys (map (ClientDestroy \<circ> f) xs) = map f xs"
  by (induction xs) simp_all

lemma increments_append [simp]: "increments d f (xs @ ys) = increments d f xs + increments d f ys"
  by (simp add: increments_def)

lemma increments_Nil [simp]: "increments d f [] = 0"
  by (simp add: increments_def)

lemma increments_Cons [simp]: "increments d f (e # es) = (if e = StatsIncrement d f then 1 else 0) + increments d f es"
  by (simp add: increments_def)

lemma incoming_append [simp]: "incoming (xs @ ys) = incoming xs @ incoming ys"
  by (simp add: incoming_def)

lemma incoming_Nil [simp]: "incoming [] = []"
  by (simp add: incoming_def)

lemma incoming_Cons [simp]:
  "incoming (e # es) =
     (case e of
        MessageCreate m \<Rightarrow> if direction m = js ''incoming'' then [m] else []
      | _ \<Rightarrow> []) @ incoming es"
  by (cases e) (simp_all add: incoming_def)

lemma effects_call [simp]: "effects (call e w) = effects w @ [e]"
  by (simp add: call_def)

lemma clients_call [simp]: "clients (call e w) = clients w"
  by (simp add: call_def)

lemma devices_call [simp]: "devices (call e w) = devices w"
  by (simp add: call_def)

lemma attempts_call [simp]: "initializationAttempts (call e w) = initializationAttempts w"
  by (simp add: call_def)

lemma uuid_count_call [simp]: "uuid_count (call e w) = uuid_count w"
  by (simp add: call_def)

lemma initAttemptCount_call [simp]: "initAttemptCount (call e w) d = initAttemptCount w d"
  by (simp add: initAttemptCount_def)

lemmas store_defs = messageModel_create_def statsModel_increment_def logModel_create_def
  deviceModel_findById_def

lemma deviceModel_update_fields [simp]:
  "clients (deviceModel_update d f w) = clients w"
  "initializationAttempts (deviceModel_update d f w) = initializationAttempts w"
  "effects (deviceModel_update d f w) = effects w"
  by (simp_all add: deviceModel_update_def split: option.splits)

lemmas example_defs = device1_def msg1_def world1_def env_ok_def env_refused_def env_failing_def
  messageData1_def

subsection \<open>The active set\<close>

lemma Map_get_delete [simp]: "Map_get (Map_delete m k) k = None"
  by (induction m) (auto simp: Map_get_def Map_delete_def)

lemma Map_has_delete [simp]: "\<not> Map_has (Map_delete m k) k"
  by (simp add: Map_has_def Map_get_def[symmetric])

lemma Map_get_delete_other: "k' \<noteq> k \<Longrightarrow> Map_get (Map_delete m k) k' = Map_get m k'"
  by (induction m) (auto simp: Map_get_def Map_delete_def)

lemma map_of_Map_set: "map_of (Map_set m k v) k' = (if k' = k then Some v else map_of m k')"
  by (induction m) auto

lemma Map_has_set [simp]: "Map_has (Map_set m k v) k' \<longleftrightarrow> k' = k \<or> Map_has m k'"
  by (simp add: Map_has_def map_of_Map_set)

lemma Map_has_delete_iff [simp]: "Map_has (Map_delete m k) k' \<longleftrightarrow> k' \<noteq> k \<and> Map_has m k'"
  by (induction m) (auto simp: Map_has_def Map_delete_def)

lemma Map_has_filter: "Map_has (filter P m) d \<Longrightarrow> Map_has m d"
  by (induction m) (auto simp: Map_has_def split: if_splits)

subsection \<open>Reply extraction\<close>



text \<open>
  With a path that is not blank, the result is the string the traversal ends in, and
  null whenever a segment is missing or the final value is no string. The three
  examples of the specification.
\<close>

lemma extractResponseMessage_path:
  assumes "trim p \<noteq> []"
  shows "extractResponseMessage responseData (Some p) =
           (case traverse responseData (split p 0x2E) of
              Some (JStr reply) \<Rightarrow> Inr (JStr reply)
            | _ \<Rightarrow> Inr JNull)"
proof -
  from assms have "p \<noteq> []" by auto
  with assms show ?thesis by (simp add: extractResponseMessage_def)
qed

lemma extractResponseMessage_examples:
  "extractResponseMessage (JObj [(js ''a'', JObj [(js ''b'', JStr (js ''hi''))])]) (Some (js ''a.b''))
     = Inr (JStr (js ''hi''))"
  "extractResponseMessage (JObj [(js ''a'', JObj [])]) (Some (js ''a.b'')) = Inr JNull"
  "extractResponseMessage (JObj [(js ''message'', JStr (js ''ok''))]) None = Inr (JStr (js ''ok''))"
  by (simp_all add: extractResponseMessage_def autodetect_def or_value_def split_def js_def
                    trim_def isWhiteSpace_def)

text \<open>
  C4. With no path configured, the probing returns the first truthy value, whatever its
  type: at the body \<open>{"reply": 42, "message": "ok"}\<close> the result is the number 42 and
  not the string \<open>ok\<close>.
\<close>

theorem extractResponseMessage_first_truthy:
  "extractResponseMessage
     (JObj [(js ''reply'', JNum 42), (js ''message'', JStr (js ''ok''))]) None
   = Inr (JNum 42)"
  by (simp add: extractResponseMessage_def autodetect_def or_value_def)

lemma extract_ok:
  "extractResponseMessage (JObj [(js ''data'', JObj [(js ''reply'', JStr (js ''ok!''))])])
     (Some (js ''data.reply'')) = Inr (JStr (js ''ok!''))"
  by (simp add: extractResponseMessage_def split_def js_def trim_def isWhiteSpace_def)

lemma trim_ok: "trim (js ''ok!'') \<noteq> []"
  by (simp add: js_def trim_def isWhiteSpace_def)

subsection \<open>Template rendering\<close>

text \<open>A replacement without a dollar sign is inserted as it is.\<close>

lemma getSubstitution_literal:
  "0x24 \<notin> set replacement \<Longrightarrow>
   getSubstitution matched preceding following replacement = replacement"
  by (induction matched preceding following replacement rule: getSubstitution.induct) auto

text \<open>
  C3. A string value is not always inserted literally: with the template
  \<open>{"m":"{{message}}"}\<close> and the message text \<open>a$$b\<close>, the text handed to \<open>JSON.parse\<close>
  is \<open>{"m":"a$b"}\<close>.
\<close>

theorem buildDynamicPayload_dollar:
  \<open>buildDynamicPayload env (js ''{"m":"{{message}}"}'')
     (template_variables (js ''device-1'') device1 (msg1\<lparr>msg_body := js ''a$$b''\<rparr>))
   = JSON_parse env (js ''{"m":"a$b"}'')\<close>
  by (simp add: buildDynamicPayload_def template_variables_def substitute_variable_def
                replace_def js_def device1_def msg1_def or_string_def)

subsection \<open>Sending\<close>

lemma sendMessage_sends:
  "sends (effects (snd (sendMessage env deviceId to body w))) =
   sends (effects w) @
     (if Map_get (clients w) deviceId \<noteq> None
         \<and> (\<exists>device. devices w deviceId = Some device \<and> status device = js ''connected'')
      then [(deviceId, if 0x40 \<in> set to then to else to @ js ''@c.us'', body)]
      else [])"
  by (auto simp: sendMessage_def store_defs Let_def at_sign js_includes_char
           split: option.splits sum.splits)

lemma sendMessage_clients [simp]: "clients (snd (sendMessage env deviceId to body w)) = clients w"
  by (auto simp: sendMessage_def store_defs Let_def split: option.splits sum.splits)

lemma sendMessage_devices [simp]: "devices (snd (sendMessage env deviceId to body w)) = devices w"
  by (auto simp: sendMessage_def store_defs Let_def split: option.splits sum.splits)

lemma sendMessage_attempts [simp]: "initializationAttempts (snd (sendMessage env deviceId to body w)) = initializationAttempts w"
  by (auto simp: sendMessage_def store_defs Let_def split: option.splits sum.splits)

lemma sendMessage_posts [simp]:
  "posts (effects (snd (sendMessage env deviceId to body w))) = posts (effects w)"
  by (auto simp: sendMessage_def store_defs Let_def split: option.splits sum.splits)

lemma sendMessage_increments [simp]:
  "field \<noteq> js ''messages_sent'' \<Longrightarrow>
   increments d field (effects (snd (sendMessage env deviceId to body w))) = increments d field (effects w)"
  by (auto simp: sendMessage_def store_defs Let_def split: option.splits sum.splits)

lemma sendMessage_incoming [simp]:
  "incoming (effects (snd (sendMessage env deviceId to body w))) = incoming (effects w)"
  by (auto simp: sendMessage_def store_defs Let_def split: option.splits sum.splits)


subsection \<open>Reply handling\<close>

lemma handleWebhookResponse_sends:
  "sends (effects (handleWebhookResponse env deviceId device msg responseData w)) =
   sends (effects w) @
     (case extractResponseMessage responseData (webhook_response_path device) of
        Inr (JStr reply) \<Rightarrow>
          if trim reply \<noteq> [] \<and> Map_get (clients w) deviceId \<noteq> None
             \<and> (\<exists>row. devices w deviceId = Some row \<and> status row = js ''connected'')
          then [(deviceId,
                 if 0x40 \<in> set (msg_from msg) then msg_from msg else msg_from msg @ js ''@c.us'',
                 reply)]
          else []
      | _ \<Rightarrow> [])"
proof (cases "extractResponseMessage responseData (webhook_response_path device)")
  case (Inl error)
  then show ?thesis
    by (simp add: handleWebhookResponse_def handleWebhookResponse_try_def store_defs)
next
  case (Inr replyMessage)
  show ?thesis
  proof (cases "\<exists>reply. replyMessage = JStr reply \<and> trim reply \<noteq> []")
    case False
    with Inr show ?thesis
      by (cases replyMessage)
         (auto simp: handleWebhookResponse_def handleWebhookResponse_try_def store_defs)
  next
    case True
    then obtain reply where reply: "replyMessage = JStr reply" "trim reply \<noteq> []"
      by blast
    then have nonempty: "reply \<noteq> []" by auto
    obtain r w1 where sm: "sendMessage env deviceId (msg_from msg) reply w = (r, w1)"
      by (cases "sendMessage env deviceId (msg_from msg) reply w")
    have "sends (effects w1) = sends (effects (snd (sendMessage env deviceId (msg_from msg) reply w)))"
      by (simp add: sm)
    then have w1: "sends (effects w1) =
        sends (effects w) @
          (if Map_get (clients w) deviceId \<noteq> None
              \<and> (\<exists>row. devices w deviceId = Some row \<and> status row = js ''connected'')
           then [(deviceId,
                  if 0x40 \<in> set (msg_from msg) then msg_from msg else msg_from msg @ js ''@c.us'',
                  reply)]
           else [])"
      by (simp only: sendMessage_sends)
    from Inr reply nonempty sm w1 show ?thesis
      by (cases r)
         (simp_all add: handleWebhookResponse_def handleWebhookResponse_try_def store_defs)
  qed
qed

lemma handleWebhookResponse_sends':
  "sends (effects (handleWebhookResponse env deviceId device msg responseData w)) =
   sends (effects w) @
     (if Map_get (clients w) deviceId \<noteq> None
         \<and> (\<exists>row. devices w deviceId = Some row \<and> status row = js ''connected'')
      then (case extractResponseMessage responseData (webhook_response_path device) of
              Inr (JStr reply) \<Rightarrow>
                if trim reply \<noteq> []
                then [(deviceId,
                       if 0x40 \<in> set (msg_from msg) then msg_from msg
                       else msg_from msg @ js ''@c.us'',
                       reply)]
                else []
            | _ \<Rightarrow> [])
      else [])"
  by (auto simp: handleWebhookResponse_sends split: sum.splits json.splits)

lemma handleWebhookResponse_shape:
  "(\<exists>d l t. effects (handleWebhookResponse env deviceId device msg responseData w)
              = effects w @ [LogCreate d l t])
   \<or> (\<exists>reply d l t. effects (handleWebhookResponse env deviceId device msg responseData w)
              = effects (snd (sendMessage env deviceId (msg_from msg) reply w)) @ [LogCreate d l t])"
proof (cases "extractResponseMessage responseData (webhook_response_path device)")
  case (Inl error)
  then show ?thesis
    by (intro disjI1) (simp add: handleWebhookResponse_def handleWebhookResponse_try_def store_defs)
next
  case (Inr replyMessage)
  show ?thesis
  proof (cases "\<exists>reply. replyMessage = JStr reply \<and> trim reply \<noteq> []")
    case False
    with Inr show ?thesis
      by (intro disjI1, cases replyMessage)
         (auto simp: handleWebhookResponse_def handleWebhookResponse_try_def store_defs)
  next
    case True
    then obtain reply where reply: "replyMessage = JStr reply" "trim reply \<noteq> []"
      by blast
    then have nonempty: "reply \<noteq> []" by auto
    obtain r w1 where sm: "sendMessage env deviceId (msg_from msg) reply w = (r, w1)"
      by (cases "sendMessage env deviceId (msg_from msg) reply w")
    then have w1: "w1 = snd (sendMessage env deviceId (msg_from msg) reply w)"
      by simp
    from Inr reply nonempty sm have
      "\<exists>d l t. effects (handleWebhookResponse env deviceId device msg responseData w)
         = effects w1 @ [LogCreate d l t]"
      by (cases r)
         (simp_all add: handleWebhookResponse_def handleWebhookResponse_try_def store_defs)
    then show ?thesis unfolding w1 by blast
  qed
qed

lemma handleWebhookResponse_posts [simp]:
  "posts (effects (handleWebhookResponse env deviceId device msg responseData w)) = posts (effects w)"
  using handleWebhookResponse_shape[of env deviceId device msg responseData w] by auto

lemma handleWebhookResponse_increments [simp]:
  "field \<noteq> js ''messages_sent'' \<Longrightarrow>
   increments d field (effects (handleWebhookResponse env deviceId device msg responseData w))
     = increments d field (effects w)"
  using handleWebhookResponse_shape[of env deviceId device msg responseData w] by auto

lemma handleWebhookResponse_incoming [simp]:
  "incoming (effects (handleWebhookResponse env deviceId device msg responseData w)) = incoming (effects w)"
  using handleWebhookResponse_shape[of env deviceId device msg responseData w] by auto


lemma handleWebhookResponse_maps [simp]:
  "clients (handleWebhookResponse env deviceId device msg body w) = clients w"
  "initializationAttempts (handleWebhookResponse env deviceId device msg body w) = initializationAttempts w"
  by (auto simp: handleWebhookResponse_def handleWebhookResponse_try_def store_defs call_def
                 sendMessage_def Let_def
           split: sum.splits json.splits prod.splits option.splits if_splits)


subsection \<open>Forwarding to the webhook\<close>

lemma chooseWebhookPayload_payload:
  "fst (chooseWebhookPayload env deviceId device msg w) =
     (case webhook_body_template device of
        None \<Rightarrow> getDefaultPayload deviceId device msg
      | Some template \<Rightarrow>
          if template = [] then getDefaultPayload deviceId device msg
          else (case buildDynamicPayload env template (template_variables deviceId device msg) of
                  Inr payload \<Rightarrow> payload
                | Inl error \<Rightarrow> getDefaultPayload deviceId device msg))"
  by (simp add: chooseWebhookPayload_def split: option.splits sum.splits)

lemma chooseWebhookPayload_world [simp]:
  "clients (snd (chooseWebhookPayload env deviceId device msg w)) = clients w"
  "devices (snd (chooseWebhookPayload env deviceId device msg w)) = devices w"
  "sends (effects (snd (chooseWebhookPayload env deviceId device msg w))) = sends (effects w)"
  "posts (effects (snd (chooseWebhookPayload env deviceId device msg w))) = posts (effects w)"
  "creates (effects (snd (chooseWebhookPayload env deviceId device msg w))) = creates (effects w)"
  "incoming (effects (snd (chooseWebhookPayload env deviceId device msg w))) = incoming (effects w)"
  "increments d field (effects (snd (chooseWebhookPayload env deviceId device msg w)))
     = increments d field (effects w)"
  by (simp_all add: chooseWebhookPayload_def store_defs split: option.splits sum.splits)

lemma chooseWebhookPayload_attempts [simp]:
  "initializationAttempts (snd (chooseWebhookPayload env deviceId device msg w)) = initializationAttempts w"
  by (simp add: chooseWebhookPayload_def store_defs split: option.splits sum.splits)


lemma forwardToWebhook_posts:
  "posts (effects (forwardToWebhook env deviceId device msg messageData w)) =
   posts (effects w) @ [(webhook_url device, fst (chooseWebhookPayload env deviceId device msg w))]"
  by (simp add: forwardToWebhook_def Let_def case_prod_beta store_defs
           split: sum.splits)

lemma forwardToWebhook_webhook_calls:
  "increments deviceId (js ''webhook_calls'')
     (effects (forwardToWebhook env deviceId device msg messageData w)) =
   increments deviceId (js ''webhook_calls'') (effects w) +
     (case transport env (webhook_url device) (fst (chooseWebhookPayload env deviceId device msg w)) of
        Response st body \<Rightarrow> if st < 600 then 1 else 0
      | NoResponse code text \<Rightarrow> 0)"
  by (simp add: forwardToWebhook_def axios_post_def Let_def case_prod_beta store_defs
           split: sum.splits http_outcome.splits)

lemma forwardToWebhook_sends:
  "sends (effects (forwardToWebhook env deviceId device msg messageData w)) =
   sends (effects w) @
     (if Map_get (clients w) deviceId \<noteq> None
         \<and> (\<exists>row. devices w deviceId = Some row \<and> status row = js ''connected'')
      then
        (case transport env (webhook_url device) (fst (chooseWebhookPayload env deviceId device msg w)) of
           Response st body \<Rightarrow>
             if 200 \<le> st \<and> st < 300 \<and> webhook_response_enabled device \<noteq> 0 \<and> truthy body
             then (case extractResponseMessage body (webhook_response_path device) of
                     Inr (JStr reply) \<Rightarrow>
                       if trim reply \<noteq> []
                       then [(deviceId,
                              if 0x40 \<in> set (msg_from msg) then msg_from msg
                              else msg_from msg @ js ''@c.us'',
                              reply)]
                       else []
                   | _ \<Rightarrow> [])
             else []
         | NoResponse code text \<Rightarrow> [])
      else [])"
  by (auto simp: forwardToWebhook_def axios_post_def Let_def case_prod_beta store_defs
                 handleWebhookResponse_sends'
           split: http_outcome.splits)




lemma forwardToWebhook_maps [simp]:
  "clients (forwardToWebhook env deviceId device msg messageData w) = clients w"
  "initializationAttempts (forwardToWebhook env deviceId device msg messageData w) = initializationAttempts w"
  by (simp_all add: forwardToWebhook_def axios_post_def Let_def case_prod_beta store_defs
           split: sum.splits http_outcome.splits)


subsection \<open>The services revision\<close>

lemma sendMessage_content_maps [simp]:
  "clients (snd (sendMessage_content env deviceId to content w)) = clients w"
  "initializationAttempts (snd (sendMessage_content env deviceId to content w)) = initializationAttempts w"
  "devices (snd (sendMessage_content env deviceId to content w)) = devices w"
  by (auto simp: sendMessage_content_def store_defs Let_def split: option.splits sum.splits json.splits)

lemma sendMessage_content_posts [simp]:
  "posts (effects (snd (sendMessage_content env deviceId to content w))) = posts (effects w)"
  by (auto simp: sendMessage_content_def store_defs Let_def split: option.splits sum.splits json.splits)

lemma sendMessage_content_increments [simp]:
  "field \<noteq> js ''messages_sent'' \<Longrightarrow>
   increments d field (effects (snd (sendMessage_content env deviceId to content w)))
     = increments d field (effects w)"
  by (auto simp: sendMessage_content_def store_defs Let_def split: option.splits sum.splits json.splits)

lemma sendMessage_content_incoming [simp]:
  "incoming (effects (snd (sendMessage_content env deviceId to content w))) = incoming (effects w)"
  by (auto simp: sendMessage_content_def store_defs Let_def split: option.splits sum.splits json.splits)


lemma reply_services_posts [simp]:
  "posts (effects (snd (reply_services env deviceId device msg body w))) = posts (effects w)"
  by (auto simp: reply_services_def store_defs case_prod_beta split: sum.splits json.splits)

lemma reply_services_increments [simp]:
  "field \<noteq> js ''messages_sent'' \<Longrightarrow>
   increments d field (effects (snd (reply_services env deviceId device msg body w)))
     = increments d field (effects w)"
  by (auto simp: reply_services_def store_defs case_prod_beta split: sum.splits json.splits)

lemma reply_services_incoming [simp]:
  "incoming (effects (snd (reply_services env deviceId device msg body w))) = incoming (effects w)"
  by (auto simp: reply_services_def store_defs case_prod_beta split: sum.splits json.splits)


lemma chooseWebhookPayload_services_payload:
  "fst (chooseWebhookPayload_services env deviceId device msg w) =
     (case webhook_body_template device of
        None \<Rightarrow> getDefaultPayload_services deviceId device msg
      | Some template \<Rightarrow>
          if template = [] then getDefaultPayload_services deviceId device msg
          else (case buildDynamicPayload_services env template
                       (template_variables_services deviceId device msg) of
                  Inr payload \<Rightarrow> payload
                | Inl error \<Rightarrow> getDefaultPayload_services deviceId device msg))"
  by (simp add: chooseWebhookPayload_services_def split: option.splits sum.splits)

lemma chooseWebhookPayload_services_world [simp]:
  "posts (effects (snd (chooseWebhookPayload_services env deviceId device msg w))) = posts (effects w)"
  "incoming (effects (snd (chooseWebhookPayload_services env deviceId device msg w))) = incoming (effects w)"
  "increments d field (effects (snd (chooseWebhookPayload_services env deviceId device msg w)))
     = increments d field (effects w)"
  by (simp_all add: chooseWebhookPayload_services_def store_defs split: option.splits sum.splits)


lemma forwardToWebhook_services_posts:
  "posts (effects (forwardToWebhook_services env deviceId device msg messageData w)) =
   posts (effects w) @
     [(webhook_url device,
       fst (chooseWebhookPayload_services env deviceId device msg
              (logModel_create deviceId (js ''info'') (js ''Building webhook payload...'') w)))]"
  by (auto simp: forwardToWebhook_services_def Let_def case_prod_beta store_defs
           split: sum.splits option.splits)

lemma forwardToWebhook_services_incoming:
  "incoming (effects (forwardToWebhook_services env deviceId device msg messageData w)) = incoming (effects w)"
  by (auto simp: forwardToWebhook_services_def Let_def case_prod_beta store_defs
           split: sum.splits option.splits)

lemma forwardToWebhook_services_received:
  "increments d (js ''messages_received'')
     (effects (forwardToWebhook_services env deviceId device msg messageData w))
   = increments d (js ''messages_received'') (effects w)"
  by (auto simp: forwardToWebhook_services_def Let_def case_prod_beta store_defs
           split: sum.splits option.splits)



text \<open>
  C9. When the device has an active session and its row has status \<open>connected\<close>,
  \<open>sendMessage\<close> passes to the provider's send operation the address \<open>to\<close> itself if
  it contains the character @ and \<open>to\<close> followed by \<open>@c.us\<close> otherwise, with the text
  unchanged. The replies that \<open>forwardToWebhook\<close> sends go through \<open>sendMessage\<close>:
  whatever it hands to the provider is addressed to the sender of the inbound message,
  normalised in the same way.
\<close>

theorem sendMessage_chatId:
  "(Map_get (clients w) deviceId = Some client
      \<and> deviceModel_findById w deviceId = Some device \<and> status device = js ''connected''
    \<longrightarrow> sends (effects (snd (sendMessage env deviceId to body w))) =
          sends (effects w) @ [(deviceId, if 0x40 \<in> set to then to else to @ js ''@c.us'', body)])
   \<and> (\<exists>rs. sends (effects (forwardToWebhook env deviceId config msg messageData w))
               = sends (effects w) @ rs
            \<and> (\<forall>r \<in> set rs. fst (snd r) =
                  (if 0x40 \<in> set (msg_from msg) then msg_from msg else msg_from msg @ js ''@c.us'')))"
proof (intro conjI impI)
  assume "Map_get (clients w) deviceId = Some client
      \<and> deviceModel_findById w deviceId = Some device \<and> status device = js ''connected''"
  then show "sends (effects (snd (sendMessage env deviceId to body w))) =
          sends (effects w) @ [(deviceId, if 0x40 \<in> set to then to else to @ js ''@c.us'', body)]"
    by (simp add: sendMessage_sends deviceModel_findById_def)
next
  show "\<exists>rs. sends (effects (forwardToWebhook env deviceId config msg messageData w))
               = sends (effects w) @ rs
            \<and> (\<forall>r \<in> set rs. fst (snd r) =
                  (if 0x40 \<in> set (msg_from msg) then msg_from msg else msg_from msg @ js ''@c.us''))"
  proof -
    obtain rs where rs: "sends (effects (forwardToWebhook env deviceId config msg messageData w))
               = sends (effects w) @ rs"
      and "rs = [] \<or> (\<exists>reply. rs = [(deviceId,
                if 0x40 \<in> set (msg_from msg) then msg_from msg else msg_from msg @ js ''@c.us'',
                reply)])"
      using forwardToWebhook_sends[of env deviceId config msg messageData w]
      by (auto split: http_outcome.splits sum.splits json.splits if_splits)
    then show ?thesis by auto
  qed
qed

text \<open>
  A number without @ gets the suffix; the sender address of an inbound message has an
  @ and is used as it is.
\<close>

theorem sendMessage_chatId_witness:
  "(Map_get (clients world1) (js ''device-1'') = Some (Client (js ''device-1''))
      \<and> deviceModel_findById world1 (js ''device-1'') = Some device1 \<and> status device1 = js ''connected'')
   \<and> sends (effects (snd (sendMessage env_ok (js ''device-1'') (js ''6281'') (js ''hello'') world1)))
       = [(js ''device-1'', js ''6281@c.us'', js ''hello'')]
   \<and> map (\<lambda>r. fst (snd r))
         (sends (effects (forwardToWebhook env_ok (js ''device-1'') device1 msg1 messageData1 world1)))
       = [js ''6281@c.us'']"
proof -
  have active: "Map_get (clients world1) (js ''device-1'') = Some (Client (js ''device-1''))"
    by (simp add: world1_def Map_get_def)
  have row: "deviceModel_findById world1 (js ''device-1'') = Some device1"
    by (simp add: world1_def deviceModel_findById_def)
  have connected: "status device1 = js ''connected''"
    by (simp add: device1_def)
  have no_at: "(0x40 :: jschar) \<notin> set (js ''6281'')" and at: "(0x40 :: jschar) \<in> set (msg_from msg1)"
    by (simp_all add: js_def msg1_def)
  have address: "js ''6281'' @ js ''@c.us'' = js ''6281@c.us''" "msg_from msg1 = js ''6281@c.us''"
    by (simp_all add: js_def msg1_def)
  have start: "sends (effects world1) = []"
    by (simp add: world1_def)
  have enabled: "webhook_response_enabled device1 \<noteq> 0"
      "webhook_response_path device1 = Some (js ''data.reply'')"
    by (simp_all add: device1_def)
  have answer: "transport env_ok url payload
      = Response 200 (JObj [(js ''data'', JObj [(js ''reply'', JStr (js ''ok!''))])])" for url payload
    by (simp add: env_ok_def)
  have one: "length (sends (effects (forwardToWebhook env_ok (js ''device-1'') device1 msg1 messageData1 world1))) = 1"
    using active row connected enabled
    by (simp add: forwardToWebhook_sends answer extract_ok trim_ok start deviceModel_findById_def)
  from sendMessage_chatId [where w = world1 and deviceId = "js ''device-1''"
      and client = "Client (js ''device-1'')" and device = device1 and env = env_ok
      and to = "js ''6281''" and body = "js ''hello''" and config = device1 and msg = msg1
      and messageData = messageData1]
  show ?thesis
    using active row connected no_at at address start one
    by (auto simp: length_Suc_conv)
qed

text \<open>
  C8. \<open>getDefaultPayload\<close> in services/whatsapp-manager.js builds eight fields:
  device_id, device_name, from, to, message, message_type, timestamp and message_id,
  without from_name. This is the payload that \<open>forwardToWebhook\<close> of that revision
  posts for the example message on the device without a body template.
\<close>

theorem getDefaultPayload_services_fields:
  "(\<exists>fields. getDefaultPayload_services deviceId device msg = JObj fields
       \<and> map fst fields =
           [js ''device_id'', js ''device_name'', js ''from'', js ''to'', js ''message'',
            js ''message_type'', js ''timestamp'', js ''message_id'']
       \<and> js ''from_name'' \<notin> set (map fst fields))
   \<and> webhook_body_template device1 = None
   \<and> posts (effects (forwardToWebhook_services env_ok (js ''device-1'') device1 msg1 messageData1 world1)) =
       [(Some (js ''http://hooks.test/in''),
         JObj [(js ''device_id'', JStr (js ''device-1'')),
               (js ''device_name'', JStr (js ''Customer Service 1'')),
               (js ''from'', JStr (js ''6281@c.us'')),
               (js ''to'', JStr (js ''628123456789@c.us'')),
               (js ''message'', JStr (js ''hi'')),
               (js ''message_type'', JStr (js ''chat'')),
               (js ''timestamp'', JNum 1701234567),
               (js ''message_id'', JStr (js ''false_6281@c.us_3EB0''))])]"
proof -
  have fields: "\<exists>fields. getDefaultPayload_services deviceId device msg = JObj fields
       \<and> map fst fields =
           [js ''device_id'', js ''device_name'', js ''from'', js ''to'', js ''message'',
            js ''message_type'', js ''timestamp'', js ''message_id'']
       \<and> js ''from_name'' \<notin> set (map fst fields)"
    by (simp add: getDefaultPayload_services_def)
  have template: "webhook_body_template device1 = None"
    by (simp add: device1_def)
  have posted: "posts (effects (forwardToWebhook_services env_ok (js ''device-1'') device1 msg1 messageData1 world1)) =
       [(Some (js ''http://hooks.test/in''),
         JObj [(js ''device_id'', JStr (js ''device-1'')),
               (js ''device_name'', JStr (js ''Customer Service 1'')),
               (js ''from'', JStr (js ''6281@c.us'')),
               (js ''to'', JStr (js ''628123456789@c.us'')),
               (js ''message'', JStr (js ''hi'')),
               (js ''message_type'', JStr (js ''chat'')),
               (js ''timestamp'', JNum 1701234567),
               (js ''message_id'', JStr (js ''false_6281@c.us_3EB0''))])]"
    by (simp add: forwardToWebhook_services_posts chooseWebhookPayload_services_payload template
                  getDefaultPayload_services_def device1_def msg1_def world1_def)
  from fields template posted show ?thesis
    by blast
qed

text \<open>
  Whenever the device has no body template (null or empty), or
  \<open>buildDynamicPayload\<close> throws, the one request that \<open>forwardToWebhook\<close> of
  services/whatsapp-manager.js posts carries that eight-field payload.
\<close>

lemma forwardToWebhook_services_default:
  assumes "webhook_body_template device = None \<or> webhook_body_template device = Some []
      \<or> (\<exists>template error. webhook_body_template device = Some template
            \<and> buildDynamicPayload_services env template
                 (template_variables_services deviceId device msg) = Inl error)"
  shows "posts (effects (forwardToWebhook_services env deviceId device msg messageData w)) =
          posts (effects w) @ [(webhook_url device, getDefaultPayload_services deviceId device msg)]"
proof -
  from assms have "fst (chooseWebhookPayload_services env deviceId device msg v)
      = getDefaultPayload_services deviceId device msg" for v
    by (auto simp: chooseWebhookPayload_services_payload)
  then show ?thesis
    by (simp add: forwardToWebhook_services_posts)
qed

text \<open>
  In part_000, when the device has no body template (null or empty), or
  \<open>buildDynamicPayload\<close> throws, the one request that \<open>forwardToWebhook\<close> posts carries
  the default payload, and the fields of that default payload are device_id,
  device_name, from, to, message, message_type, timestamp, message_id and from_name.
\<close>

lemma forwardToWebhook_default_payload:
  "(webhook_body_template device = None \<or> webhook_body_template device = Some []
      \<or> (\<exists>template error. webhook_body_template device = Some template
            \<and> buildDynamicPayload env template (template_variables deviceId device msg) = Inl error)
    \<longrightarrow> posts (effects (forwardToWebhook env deviceId device msg messageData w)) =
          posts (effects w) @ [(webhook_url device, getDefaultPayload deviceId device msg)])
   \<and> (\<exists>fields. getDefaultPayload deviceId device msg = JObj fields
         \<and> map fst fields =
             [js ''device_id'', js ''device_name'', js ''from'', js ''to'', js ''message'',
              js ''message_type'', js ''timestamp'', js ''message_id'', js ''from_name'']
         \<and> distinct (map fst fields))"
proof (intro conjI impI)
  assume fallback: "webhook_body_template device = None \<or> webhook_body_template device = Some []
      \<or> (\<exists>template error. webhook_body_template device = Some template
            \<and> buildDynamicPayload env template (template_variables deviceId device msg) = Inl error)"
  then have "fst (chooseWebhookPayload env deviceId device msg w) = getDefaultPayload deviceId device msg"
    by (auto simp: chooseWebhookPayload_payload)
  then show "posts (effects (forwardToWebhook env deviceId device msg messageData w)) =
          posts (effects w) @ [(webhook_url device, getDefaultPayload deviceId device msg)]"
    by (simp add: forwardToWebhook_posts)
next
  show "\<exists>fields. getDefaultPayload deviceId device msg = JObj fields
         \<and> map fst fields =
             [js ''device_id'', js ''device_name'', js ''from'', js ''to'', js ''message'',
              js ''message_type'', js ''timestamp'', js ''message_id'', js ''from_name'']
         \<and> distinct (map fst fields)"
    by (simp add: getDefaultPayload_def)
qed

text \<open>The payload that part_000 posts for the example message on the device without a template.\<close>

lemma forwardToWebhook_default_payload_example:
  "(webhook_body_template device1 = None \<or> webhook_body_template device1 = Some []
      \<or> (\<exists>template error. webhook_body_template device1 = Some template
            \<and> buildDynamicPayload env_ok template (template_variables (js ''device-1'') device1 msg1) = Inl error))
   \<and> posts (effects (forwardToWebhook env_ok (js ''device-1'') device1 msg1 messageData1 world1)) =
       [(Some (js ''http://hooks.test/in''),
         JObj [(js ''device_id'', JStr (js ''device-1'')),
               (js ''device_name'', JStr (js ''Customer Service 1'')),
               (js ''from'', JStr (js ''6281@c.us'')),
               (js ''to'', JStr (js ''628123456789@c.us'')),
               (js ''message'', JStr (js ''hi'')),
               (js ''message_type'', JStr (js ''chat'')),
               (js ''timestamp'', JNum 1701234567),
               (js ''message_id'', JStr (js ''false_6281@c.us_3EB0'')),
               (js ''from_name'', JStr (js ''John''))])]"
  using forwardToWebhook_default_payload [where device = device1 and env = env_ok
      and deviceId = "js ''device-1''" and msg = msg1 and messageData = messageData1 and w = world1]
  by (simp add: example_defs getDefaultPayload_def or_string_def)




subsection \<open>Inbound messages\<close>

lemma handleIncomingMessage_maps [simp]:
  "clients (handleIncomingMessage env deviceId msg w) = clients w"
  "initializationAttempts (handleIncomingMessage env deviceId msg w) = initializationAttempts w"
  by (simp_all add: handleIncomingMessage_def Let_def store_defs split: option.splits)

text \<open>
  C2 as stated does not hold: when the webhook server refuses the connection, the
  counter webhook_calls is not incremented for the message.
\<close>

theorem webhook_calls_refused:
  "increments (js ''device-1'') (js ''webhook_calls'')
     (effects (handleIncomingMessage env_refused (js ''device-1'') msg1 world1))
   \<noteq> increments (js ''device-1'') (js ''webhook_calls'') (effects world1) + 1"
  by (simp add: handleIncomingMessage_def Let_def store_defs forwardToWebhook_webhook_calls
                example_defs truthy_string_def)

text \<open>
  C2, amended. For an inbound message that is not a status message, on a device whose
  row has the webhook enabled and a URL, \<open>handleIncomingMessage\<close> increments the counter
  webhook_calls exactly once when the request is answered with a status below 600
  (2xx or not), and not at all when the request gets no response (connection refused,
  timeout, DNS, other) or a status of 600 or more.
\<close>

theorem webhook_calls_counted:
  assumes "\<not> isStatus msg"
      and "deviceModel_findById w deviceId = Some device"
      and "webhook_enabled device \<noteq> 0" and "truthy_string (webhook_url device)"
  shows "increments deviceId (js ''webhook_calls'') (effects (handleIncomingMessage env deviceId msg w)) =
         increments deviceId (js ''webhook_calls'') (effects w) +
           (case transport env (webhook_url device)
                   (fst (chooseWebhookPayload env deviceId device msg w)) of
              Response st body \<Rightarrow> if st < 600 then 1 else 0
            | NoResponse code text \<Rightarrow> 0)"
  using assms
  by (simp add: handleIncomingMessage_def Let_def store_defs forwardToWebhook_webhook_calls
                chooseWebhookPayload_payload)

text \<open>One increment when the webhook answers 200, none when the connection is refused.\<close>

theorem webhook_calls_counted_witness:
  "\<not> isStatus msg1
   \<and> deviceModel_findById world1 (js ''device-1'') = Some device1
   \<and> webhook_enabled device1 \<noteq> 0 \<and> truthy_string (webhook_url device1)
   \<and> increments (js ''device-1'') (js ''webhook_calls'')
        (effects (handleIncomingMessage env_ok (js ''device-1'') msg1 world1)) = 1
   \<and> increments (js ''device-1'') (js ''webhook_calls'')
        (effects (handleIncomingMessage env_refused (js ''device-1'') msg1 world1)) = 0"
  using webhook_calls_counted [where msg = msg1 and w = world1 and deviceId = "js ''device-1''"
      and device = device1 and env = env_ok]
    webhook_calls_counted [where msg = msg1 and w = world1 and deviceId = "js ''device-1''"
      and device = device1 and env = env_refused]
  by (simp add: example_defs deviceModel_findById_def truthy_string_def)

lemma uuid0: "uuidv4 env_ok 0 = js ''uuid-0''"
  by (simp add: env_ok_def js_def String_nat.simps)

lemma messageModel_create_row:
  "devices w (device_id messageData) = Some row \<Longrightarrow>
   messageModel_create messageData w = Inr (call (MessageCreate messageData) w)"
  by (simp add: messageModel_create_def)

lemma messageModel_create_no_row:
  "devices w (device_id messageData) = None \<Longrightarrow>
   messageModel_create messageData w = Inl (Error (js ''FOREIGN KEY constraint failed''))"
  by (simp add: messageModel_create_def)









text \<open>
  \<open>handleIncomingMessage\<close> in services/whatsapp-manager.js has no test of
  \<open>msg.isStatus\<close>: there the copy of the example message flagged as status is
  persisted, counted and forwarded like any other.
\<close>

lemma handleIncomingMessage_services_status:
  "isStatus (msg1\<lparr>isStatus := True\<rparr>)
   \<and> incoming (effects (handleIncomingMessage_services env_ok (js ''device-1'')
                          (msg1\<lparr>isStatus := True\<rparr>) world1)) = [messageData1]
   \<and> increments (js ''device-1'') (js ''messages_received'')
        (effects (handleIncomingMessage_services env_ok (js ''device-1'')
                    (msg1\<lparr>isStatus := True\<rparr>) world1)) = 1
   \<and> map fst (posts (effects (handleIncomingMessage_services env_ok (js ''device-1'')
                                  (msg1\<lparr>isStatus := True\<rparr>) world1)))
       = [Some (js ''http://hooks.test/in'')]"
proof -
  let ?msg = "msg1\<lparr>isStatus := True\<rparr>"
  let ?md = "\<lparr>row_id = uuidv4 env_ok (uuid_count world1), device_id = js ''device-1'',
              message_id = msg_id_serialized ?msg, from_number = msg_from ?msg,
              to_number = msg_to ?msg, message_body = msg_body ?msg,
              message_type = msg_type ?msg, timestamp = msg_timestamp ?msg,
              direction = js ''incoming''\<rparr>"
  have start: "effects world1 = []" "uuid_count world1 = 0"
      "devices world1 (js ''device-1'') = Some device1"
    by (simp_all add: world1_def)
  have row: "\<lparr>row_id = uuidv4 env_ok (uuid_count world1), device_id = js ''device-1'',
              message_id = msg_id_serialized msg1, from_number = msg_from msg1,
              to_number = msg_to msg1, message_body = msg_body msg1,
              message_type = msg_type msg1, timestamp = msg_timestamp msg1,
              direction = js ''incoming''\<rparr> = messageData1"
    by (simp add: start uuid0 msg1_def messageData1_def)
  have incoming_row: "direction messageData1 = js ''incoming''"
    by (simp add: messageData1_def)
  have config: "webhook_enabled device1 \<noteq> 0" "truthy_string (webhook_url device1)"
      "webhook_url device1 = Some (js ''http://hooks.test/in'')"
    by (simp_all add: device1_def truthy_string_def)
  let ?w4 = "call (LogCreate (js ''device-1'') (js ''info'') (js ''Received message from '' @ msg_from ?msg))
              (call (StatsIncrement (js ''device-1'') (js ''messages_received''))
               (call (MessageCreate ?md) (world1\<lparr>uuid_count := Suc (uuid_count world1)\<rparr>)))"
  have eq: "handleIncomingMessage_services env_ok (js ''device-1'') ?msg world1
      = forwardToWebhook_services env_ok (js ''device-1'') device1 ?msg ?md ?w4"
    using start(3) config
    by (simp add: handleIncomingMessage_services_def Let_def messageModel_create_def
                  statsModel_increment_def logModel_create_def deviceModel_findById_def)
  show ?thesis
    unfolding eq
    using start(1) incoming_row config(3)
    by (simp add: forwardToWebhook_services_incoming forwardToWebhook_services_received
                  forwardToWebhook_services_posts row)
qed

subsection \<open>Teardown\<close>

lemma disconnect_settled_clients:
  "clients (disconnect_settled env d w) =
     (if client_destroy env d = None then Map_delete (clients w) d else clients w)"
  by (auto simp: disconnect_settled_def Let_def store_defs deviceModel_update_def
           split: option.splits)

lemma disconnect_settled_devices:
  "devices (disconnect_settled env d w) =
     (if client_destroy env d = None
      then (case devices w d of
              None \<Rightarrow> devices w
            | Some row \<Rightarrow> (devices w)(d \<mapsto> row\<lparr>status := js ''disconnected'', qr_code := None\<rparr>))
      else devices w)"
  by (auto simp: disconnect_settled_def Let_def store_defs deviceModel_update_def
           split: option.splits)

lemma disconnect_settled_destroys [simp]:
  "destroys (effects (disconnect_settled env d w)) = destroys (effects w)"
  by (auto simp: disconnect_settled_def Let_def store_defs deviceModel_update_def
           split: option.splits)

lemma disconnect_settled_attempts [simp]:
  "initializationAttempts (disconnect_settled env d w) = initializationAttempts w"
  by (auto simp: disconnect_settled_def Let_def store_defs deviceModel_update_def
           split: option.splits)

lemma fold_call_destroy:
  "effects (fold (\<lambda>d. call (ClientDestroy d)) ds w) = effects w @ map ClientDestroy ds"
  "clients (fold (\<lambda>d. call (ClientDestroy d)) ds w) = clients w"
  "devices (fold (\<lambda>d. call (ClientDestroy d)) ds w) = devices w"
  "initializationAttempts (fold (\<lambda>d. call (ClientDestroy d)) ds w) = initializationAttempts w"
  by (induction ds arbitrary: w) simp_all

lemma fold_settled_destroys [simp]:
  "destroys (effects (fold (disconnect_settled env) ds w)) = destroys (effects w)"
  by (induction ds arbitrary: w) simp_all

lemma fold_settled_attempts [simp]:
  "initializationAttempts (fold (disconnect_settled env) ds w) = initializationAttempts w"
  by (induction ds arbitrary: w) simp_all

lemma fold_settled_clients:
  "clients (fold (disconnect_settled env) ds w) =
     filter (\<lambda>(d, c). \<not> (d \<in> set ds \<and> client_destroy env d = None)) (clients w)"
proof (induction ds arbitrary: w)
  case Nil
  then show ?case by simp
next
  case (Cons a ds)
  show ?case
    by (auto simp: Cons disconnect_settled_clients Map_delete_def intro!: filter_cong)
qed

lemma fold_settled_devices:
  "devices (fold (disconnect_settled env) ds w) d =
     (if d \<in> set ds \<and> client_destroy env d = None
      then map_option (\<lambda>row. row\<lparr>status := js ''disconnected'', qr_code := None\<rparr>) (devices w d)
      else devices w d)"
proof (induction ds arbitrary: w)
  case Nil
  then show ?case by simp
next
  case (Cons a ds)
  show ?case
    by (auto simp: Cons disconnect_settled_devices split: option.splits)
qed

text \<open>
  C5. \<open>disconnectDevice\<close> does not do what the claim says when the provider's teardown
  throws: \<open>clients.delete\<close> and the status update stand after \<open>await client.destroy()\<close>
  inside the \<open>try\<close>, so the session is still in the active set afterwards and the row
  keeps its status; \<open>createDevice\<close> then answers \<open>Device already exists\<close>. The cleanup
  in \<open>createDevice\<close> deletes the session before it calls the teardown, so there a
  failing teardown leaves no session behind.
\<close>

theorem disconnectDevice_teardown_fails:
  "Map_has (clients world1) (js ''device-1'')
   \<and> client_destroy env_failing (js ''device-1'') = Some (Error (js ''Protocol error''))
   \<and> destroys (effects (disconnectDevice env_failing (js ''device-1'') world1)) = [js ''device-1'']
   \<and> Map_has (clients (disconnectDevice env_failing (js ''device-1'') world1)) (js ''device-1'')
   \<and> map_option status (devices (disconnectDevice env_failing (js ''device-1'') world1) (js ''device-1''))
       = Some (js ''connected'')
   \<and> fst (createDevice env_ok (js ''device-1'') (js ''Customer Service 1'')
            (disconnectDevice env_failing (js ''device-1'') world1)) = Inl AlreadyExists
   \<and> client_initialize env_failing = InitTimeout
   \<and> destroys (effects (snd (createDevice env_failing (js ''device-1'') (js ''Customer Service 1'') world0)))
       = [js ''device-1'']
   \<and> \<not> Map_has (clients (snd (createDevice env_failing (js ''device-1'') (js ''Customer Service 1'') world0)))
          (js ''device-1'')"
proof -
  let ?d = "js ''device-1''"
  have failing: "client_destroy env_failing ?d = Some (Error (js ''Protocol error''))"
      "client_initialize env_failing = InitTimeout"
    by (simp_all add: env_failing_def)
  have active: "Map_has (clients world1) ?d" "Map_get (clients world1) ?d = Some (Client ?d)"
      "devices world1 ?d = Some device1" "effects world1 = []"
    by (simp_all add: world1_def Map_has_def Map_get_def)
  have connected: "status device1 = js ''connected''"
    by (simp add: device1_def)
  have stuck: "disconnectDevice env_failing ?d world1 = call (ClientDestroy ?d) world1"
    by (simp add: disconnectDevice_def disconnect_settled_def active failing)
  have new: "\<not> Map_has (clients world0) ?d" "initAttemptCount world0 ?d = 0" "effects world0 = []"
    by (simp_all add: world0_def Map_has_def Map_get_def initAttemptCount_def)
  have cleanup: "destroys (effects (snd (createDevice env_failing ?d (js ''Customer Service 1'') world0))) = [?d]"
      "\<not> Map_has (clients (snd (createDevice env_failing ?d (js ''Customer Service 1'') world0))) ?d"
    using new failing(2)
    by (simp_all add: createDevice_def Let_def initializeWithTimeout_def maxRetries_def
                      deviceModel_update_def split: option.splits)
  show ?thesis
    using failing active connected new cleanup
    by (simp add: stuck createDevice_def AlreadyExists_def)
qed

text \<open>
  What the two operations do in each case. \<open>disconnectDevice\<close> does nothing when the
  device has no active session. When it has one, the teardown is started; if the
  teardown succeeds, the session is removed from the active set, the row gets status
  \<open>disconnected\<close> and a second call changes nothing; if the teardown fails, the active
  set and the devices table are as before. \<open>disconnectAll\<close> starts the teardown of
  every active device, once each and whatever the outcome of the others, and returns
  when all have settled; the devices whose teardown succeeded are removed and their
  rows have status \<open>disconnected\<close>.
\<close>

lemma disconnectDevice_cases:
  "(Map_get (clients w) deviceId = None \<longrightarrow> disconnectDevice env deviceId w = w)
   \<and> (Map_get (clients w) deviceId \<noteq> None \<and> client_destroy env deviceId = None \<longrightarrow>
         \<not> Map_has (clients (disconnectDevice env deviceId w)) deviceId
         \<and> devices (disconnectDevice env deviceId w) deviceId =
             map_option (\<lambda>row. row\<lparr>status := js ''disconnected'', qr_code := None\<rparr>)
               (devices w deviceId)
         \<and> destroys (effects (disconnectDevice env deviceId w)) = destroys (effects w) @ [deviceId]
         \<and> disconnectDevice env deviceId (disconnectDevice env deviceId w)
             = disconnectDevice env deviceId w)
   \<and> (Map_get (clients w) deviceId \<noteq> None \<and> client_destroy env deviceId \<noteq> None \<longrightarrow>
         clients (disconnectDevice env deviceId w) = clients w
         \<and> devices (disconnectDevice env deviceId w) = devices w
         \<and> destroys (effects (disconnectDevice env deviceId w)) = destroys (effects w) @ [deviceId])
   \<and> clients (disconnectDevice env deviceId (disconnectDevice env deviceId w))
       = clients (disconnectDevice env deviceId w)
   \<and> devices (disconnectDevice env deviceId (disconnectDevice env deviceId w))
       = devices (disconnectDevice env deviceId w)
   \<and> destroys (effects (disconnectAll env w)) = destroys (effects w) @ map fst (clients w)
   \<and> clients (disconnectAll env w) = filter (\<lambda>(d, c). client_destroy env d \<noteq> None) (clients w)
   \<and> (\<forall>d \<in> set (map fst (clients w)).
         client_destroy env d = None \<longrightarrow>
         devices (disconnectAll env w) d =
           map_option (\<lambda>row. row\<lparr>status := js ''disconnected'', qr_code := None\<rparr>) (devices w d))"
  (is "?absent \<and> ?torn \<and> ?failed \<and> ?idem1 \<and> ?idem2 \<and> ?all1 \<and> ?all2 \<and> ?all3")
proof (intro conjI)
  show ?absent
    by (simp add: disconnectDevice_def)
  show ?torn
    by (auto simp: disconnectDevice_def disconnect_settled_clients disconnect_settled_devices
             split: option.splits)
  show ?failed
    by (auto simp: disconnectDevice_def disconnect_settled_clients disconnect_settled_devices
             split: option.splits)
  show ?idem1
    by (auto simp: disconnectDevice_def disconnect_settled_clients Map_delete_def
             split: option.splits)
  show ?idem2
    by (auto simp: disconnectDevice_def disconnect_settled_clients disconnect_settled_devices
             split: option.splits)
  show ?all1
    by (simp add: disconnectAll_def Let_def fold_call_destroy)
  show ?all2
    by (force simp: disconnectAll_def Let_def fold_settled_clients fold_call_destroy
              intro!: filter_cong)
  show ?all3
    by (auto simp: disconnectAll_def Let_def fold_settled_devices fold_call_destroy)
qed

text \<open>The three cases of \<open>disconnectDevice\<close> and both outcomes of \<open>disconnectAll\<close>.\<close>

lemma disconnectDevice_cases_examples:
  "Map_get (clients world0) (js ''device-1'') = None
   \<and> disconnectDevice env_ok (js ''device-1'') world0 = world0
   \<and> Map_get (clients world1) (js ''device-1'') \<noteq> None
   \<and> client_destroy env_ok (js ''device-1'') = None
   \<and> \<not> Map_has (clients (disconnectDevice env_ok (js ''device-1'') world1)) (js ''device-1'')
   \<and> map_option status (devices (disconnectDevice env_ok (js ''device-1'') world1) (js ''device-1''))
       = Some (js ''disconnected'')
   \<and> client_destroy env_failing (js ''device-1'') \<noteq> None
   \<and> clients (disconnectDevice env_failing (js ''device-1'') world1) = clients world1
   \<and> destroys (effects (disconnectAll env_failing world1)) = [js ''device-1'']
   \<and> clients (disconnectAll env_failing world1) = clients world1
   \<and> clients (disconnectAll env_ok world1) = []
   \<and> js ''device-1'' \<in> set (map fst (clients world1))
   \<and> map_option status (devices (disconnectAll env_ok world1) (js ''device-1''))
       = Some (js ''disconnected'')"
proof -
  let ?d = "js ''device-1''"
  have absent: "Map_get (clients world0) ?d = None"
    by (simp add: world0_def Map_get_def)
  have active: "Map_get (clients world1) ?d \<noteq> None" "clients world1 = [(?d, Client ?d)]"
      "devices world1 ?d = Some device1" "effects world1 = []"
    by (simp_all add: world1_def Map_get_def)
  have outcomes: "client_destroy env_ok d = None" "client_destroy env_failing d \<noteq> None" for d
    by (simp_all add: env_ok_def env_failing_def)
  note ok0 = disconnectDevice_cases [where w = world0 and deviceId = ?d and env = env_ok]
  note ok1 = disconnectDevice_cases [where w = world1 and deviceId = ?d and env = env_ok]
  note failing1 = disconnectDevice_cases [where w = world1 and deviceId = ?d and env = env_failing]
  from ok0 ok1 failing1 show ?thesis
    using absent active outcomes by (simp add: option.map_comp comp_def)
qed

subsection \<open>Session creation\<close>

lemma createDevice_exists:
  "Map_has (clients w) deviceId \<Longrightarrow>
   createDevice env deviceId nm w = (Inl AlreadyExists, w)"
  by (simp add: createDevice_def AlreadyExists_def)

lemma createDevice_limit:
  "\<not> Map_has (clients w) deviceId \<Longrightarrow> initAttemptCount w deviceId \<ge> maxRetries \<Longrightarrow>
   createDevice env deviceId nm w = (Inl RetryLimitExceeded, w)"
  by (simp add: createDevice_def RetryLimitExceeded_def)

lemma createDevice_failure:
  assumes "\<not> Map_has (clients w) deviceId" and "initAttemptCount w deviceId < maxRetries"
      and "initializeWithTimeout env (Client deviceId) deviceId = Some error"
  shows "fst (createDevice env deviceId nm w) = Inl error"
    and "initAttemptCount (snd (createDevice env deviceId nm w)) deviceId
           = initAttemptCount w deviceId + 1"
    and "\<not> Map_has (clients (snd (createDevice env deviceId nm w))) deviceId"
    and "d \<noteq> deviceId \<Longrightarrow> initAttemptCount (snd (createDevice env deviceId nm w)) d = initAttemptCount w d"
    and "d \<noteq> deviceId \<Longrightarrow> Map_has (clients (snd (createDevice env deviceId nm w))) d = Map_has (clients w) d"
  using assms by (simp_all add: createDevice_def Let_def initAttemptCount_def)

lemma createDevice_success:
  assumes "\<not> Map_has (clients w) deviceId" and "initAttemptCount w deviceId < maxRetries"
      and "initializeWithTimeout env (Client deviceId) deviceId = None"
  shows "fst (createDevice env deviceId nm w) = Inr (Client deviceId)"
    and "initAttemptCount (snd (createDevice env deviceId nm w)) deviceId = 0"
    and "Map_has (clients (snd (createDevice env deviceId nm w))) deviceId"
  using assms by (simp_all add: createDevice_def Let_def initAttemptCount_def)

lemma createDevice_invariant:
  "idle_while_active w \<Longrightarrow> idle_while_active (snd (createDevice env deviceId nm w))"
  by (auto simp: idle_while_active_def createDevice_def Let_def split: option.splits)

lemma disconnectDevice_invariant:
  "idle_while_active w \<Longrightarrow> idle_while_active (disconnectDevice env deviceId w)"
  by (auto simp: idle_while_active_def disconnectDevice_def disconnect_settled_clients
           split: option.splits)

lemma disconnectAll_invariant:
  "idle_while_active w \<Longrightarrow> idle_while_active (disconnectAll env w)"
  by (auto simp: idle_while_active_def disconnectAll_def Let_def fold_settled_clients
                 fold_call_destroy dest: Map_has_filter)

lemma reachable_idle_while_active: "reachable w \<Longrightarrow> idle_while_active w"
proof (induction rule: reachable.induct)
  case (constructed rows)
  then show ?case by (simp add: idle_while_active_def Map_has_def)
next
  case (created w env deviceId device_name)
  then show ?case by (simp add: createDevice_invariant)
next
  case (disconnected w env deviceId)
  then show ?case by (simp add: disconnectDevice_invariant)
next
  case (disconnected_all w env)
  then show ?case by (simp add: disconnectAll_invariant)
next
  case (sent w env deviceId to body)
  then show ?case by (simp add: idle_while_active_def)
next
  case (received w env deviceId msg)
  then show ?case by (simp add: idle_while_active_def)
next
  case (stored w rows)
  then show ?case by (simp add: idle_while_active_def)
qed

lemma initializeWithTimeout_Some:
  "client_initialize env \<noteq> InitResolved \<Longrightarrow> \<exists>error. initializeWithTimeout env c d = Some error"
  by (cases "client_initialize env") (simp_all add: initializeWithTimeout_def)

lemma createDevice_failed_attempt:
  assumes "\<not> Map_has (clients w) deviceId" and "initAttemptCount w deviceId < maxRetries"
      and "client_initialize env \<noteq> InitResolved"
  shows "initAttemptCount (snd (createDevice env deviceId nm w)) deviceId = initAttemptCount w deviceId + 1
         \<and> \<not> Map_has (clients (snd (createDevice env deviceId nm w))) deviceId"
proof -
  obtain error where "initializeWithTimeout env (Client deviceId) deviceId = Some error"
    using initializeWithTimeout_Some[OF assms(3)] by blast
  with assms(1,2) show ?thesis
    by (simp add: createDevice_failure)
qed

text \<open>
  C1. \<open>createDevice\<close> fails with AlreadyExists whenever the device is in the active
  set, and, in every reachable state, with RetryLimitExceeded whenever the device's
  attempt count is at least \<open>maxRetries\<close>, which is 3; in both cases the state is
  unchanged. Otherwise a failed initialization (an error or the timeout) surfaces its
  error, adds one to the count and leaves the device out of the active set, and a
  successful one resets the count to 0 with the device in the active set. After three
  consecutive failed initializations, starting from count 0, a further call fails with
  RetryLimitExceeded.
\<close>

theorem createDevice_retry_limit:
  "(Map_has (clients w) deviceId \<longrightarrow> createDevice env deviceId nm w = (Inl AlreadyExists, w))
   \<and> (reachable w \<and> initAttemptCount w deviceId \<ge> maxRetries \<longrightarrow>
         createDevice env deviceId nm w = (Inl RetryLimitExceeded, w))
   \<and> (\<forall>error.
         \<not> Map_has (clients w) deviceId \<and> initAttemptCount w deviceId < maxRetries
         \<and> initializeWithTimeout env (Client deviceId) deviceId = Some error \<longrightarrow>
           fst (createDevice env deviceId nm w) = Inl error
           \<and> initAttemptCount (snd (createDevice env deviceId nm w)) deviceId
               = initAttemptCount w deviceId + 1
           \<and> \<not> Map_has (clients (snd (createDevice env deviceId nm w))) deviceId)
   \<and> (\<not> Map_has (clients w) deviceId \<and> initAttemptCount w deviceId < maxRetries
       \<and> initializeWithTimeout env (Client deviceId) deviceId = None \<longrightarrow>
           fst (createDevice env deviceId nm w) = Inr (Client deviceId)
           \<and> initAttemptCount (snd (createDevice env deviceId nm w)) deviceId = 0
           \<and> Map_has (clients (snd (createDevice env deviceId nm w))) deviceId)
   \<and> maxRetries = 3
   \<and> (\<not> Map_has (clients w) deviceId \<and> initAttemptCount w deviceId = 0
       \<and> client_initialize env1 \<noteq> InitResolved
       \<and> client_initialize env2 \<noteq> InitResolved
       \<and> client_initialize env3 \<noteq> InitResolved \<longrightarrow>
         createDevice env deviceId nm
           (snd (createDevice env3 deviceId nm
             (snd (createDevice env2 deviceId nm
               (snd (createDevice env1 deviceId nm w))))))
         = (Inl RetryLimitExceeded,
            snd (createDevice env3 deviceId nm
              (snd (createDevice env2 deviceId nm
                (snd (createDevice env1 deviceId nm w)))))))"
  (is "?exists \<and> ?limit \<and> ?failure \<and> ?success \<and> ?three \<and> ?consecutive")
proof (intro conjI)
  show ?exists
    by (simp add: createDevice_exists)
  show ?limit
  proof (intro impI, elim conjE)
    assume r: "reachable w" and limit: "initAttemptCount w deviceId \<ge> maxRetries"
    have "\<not> Map_has (clients w) deviceId"
    proof
      assume "Map_has (clients w) deviceId"
      with reachable_idle_while_active[OF r] have "initializationAttempts w deviceId = None"
        by (simp add: idle_while_active_def)
      with limit show False by (simp add: initAttemptCount_def maxRetries_def)
    qed
    with limit show "createDevice env deviceId nm w = (Inl RetryLimitExceeded, w)"
      by (rule createDevice_limit[rotated])
  qed
  show ?failure
    by (simp add: createDevice_failure)
  show ?success
    by (simp add: createDevice_success)
  show ?three
    by (simp add: maxRetries_def)
  show ?consecutive
  proof (intro impI, elim conjE)
    assume absent: "\<not> Map_has (clients w) deviceId" and zero: "initAttemptCount w deviceId = 0"
      and f1: "client_initialize env1 \<noteq> InitResolved"
      and f2: "client_initialize env2 \<noteq> InitResolved"
      and f3: "client_initialize env3 \<noteq> InitResolved"
    let ?w1 = "snd (createDevice env1 deviceId nm w)"
    let ?w2 = "snd (createDevice env2 deviceId nm ?w1)"
    let ?w3 = "snd (createDevice env3 deviceId nm ?w2)"
    have w1: "initAttemptCount ?w1 deviceId = 1 \<and> \<not> Map_has (clients ?w1) deviceId"
      using createDevice_failed_attempt[OF absent _ f1, of nm] zero by (simp add: maxRetries_def)
    have w2: "initAttemptCount ?w2 deviceId = 2 \<and> \<not> Map_has (clients ?w2) deviceId"
      using createDevice_failed_attempt[OF _ _ f2, of ?w1 deviceId nm] w1 by (simp add: maxRetries_def)
    have w3: "initAttemptCount ?w3 deviceId = 3 \<and> \<not> Map_has (clients ?w3) deviceId"
      using createDevice_failed_attempt[OF _ _ f3, of ?w2 deviceId nm] w2 by (simp add: maxRetries_def)
    show "createDevice env deviceId nm ?w3 = (Inl RetryLimitExceeded, ?w3)"
      using w3 by (simp add: createDevice_limit maxRetries_def)
  qed
qed

text \<open>
  Three timeouts in a row on a new manager lead to a reachable state with count 3, in
  which the next call is refused; a success after one failure resets the count.
\<close>

theorem createDevice_retry_limit_witness:
  "Map_has (clients world1) (js ''device-1'')
   \<and> createDevice env_ok (js ''device-1'') (js ''Customer Service 1'') world1
       = (Inl AlreadyExists, world1)
   \<and> \<not> Map_has (clients world0) (js ''device-1'')
   \<and> initAttemptCount world0 (js ''device-1'') = 0
   \<and> client_initialize env_failing \<noteq> InitResolved
   \<and> initializeWithTimeout env_failing (Client (js ''device-1'')) (js ''device-1'')
       = Some (Error (js ''Initialization timeout''))
   \<and> initAttemptCount
        (snd (createDevice env_failing (js ''device-1'') (js ''Customer Service 1'') world0))
        (js ''device-1'') = 1
   \<and> reachable
        (snd (createDevice env_failing (js ''device-1'') (js ''Customer Service 1'')
          (snd (createDevice env_failing (js ''device-1'') (js ''Customer Service 1'')
            (snd (createDevice env_failing (js ''device-1'') (js ''Customer Service 1'') world0))))))
   \<and> maxRetries \<le> initAttemptCount
        (snd (createDevice env_failing (js ''device-1'') (js ''Customer Service 1'')
          (snd (createDevice env_failing (js ''device-1'') (js ''Customer Service 1'')
            (snd (createDevice env_failing (js ''device-1'') (js ''Customer Service 1'') world0))))))
        (js ''device-1'')
   \<and> fst (createDevice env_ok (js ''device-1'') (js ''Customer Service 1'')
        (snd (createDevice env_failing (js ''device-1'') (js ''Customer Service 1'')
          (snd (createDevice env_failing (js ''device-1'') (js ''Customer Service 1'')
            (snd (createDevice env_failing (js ''device-1'') (js ''Customer Service 1'') world0)))))))
       = Inl RetryLimitExceeded
   \<and> initializeWithTimeout env_ok (Client (js ''device-1'')) (js ''device-1'') = None
   \<and> initAttemptCount
        (snd (createDevice env_ok (js ''device-1'') (js ''Customer Service 1'')
          (snd (createDevice env_failing (js ''device-1'') (js ''Customer Service 1'') world0))))
        (js ''device-1'') = 0"
proof -
  let ?d = "js ''device-1''" and ?n = "js ''Customer Service 1''"
  let ?w1 = "snd (createDevice env_failing ?d ?n world0)"
  let ?w2 = "snd (createDevice env_failing ?d ?n ?w1)"
  let ?w3 = "snd (createDevice env_failing ?d ?n ?w2)"
  have active: "Map_has (clients world1) ?d"
    by (simp add: world1_def Map_has_def)
  have absent: "\<not> Map_has (clients world0) ?d" and zero: "initAttemptCount world0 ?d = 0"
    by (simp_all add: world0_def Map_has_def initAttemptCount_def)
  have failing: "client_initialize env_failing \<noteq> InitResolved"
    and timeout: "initializeWithTimeout env_failing (Client ?d) ?d = Some (Error (js ''Initialization timeout''))"
    and ok: "initializeWithTimeout env_ok (Client ?d) ?d = None"
    by (simp_all add: env_failing_def env_ok_def initializeWithTimeout_def)
  have "reachable world0"
    unfolding world0_def by (rule reachable.constructed)
  then have reach: "reachable ?w3"
    by (intro reachable.created)
  have w1: "initAttemptCount ?w1 ?d = 1" "\<not> Map_has (clients ?w1) ?d"
    using createDevice_retry_limit [where w = world0 and deviceId = ?d and nm = ?n and env = env_failing]
      absent zero timeout
    by (simp_all add: maxRetries_def)
  have w2: "initAttemptCount ?w2 ?d = 2" "\<not> Map_has (clients ?w2) ?d"
    using createDevice_retry_limit [where w = ?w1 and deviceId = ?d and nm = ?n and env = env_failing]
      w1 timeout
    by (simp_all add: maxRetries_def)
  have w3: "initAttemptCount ?w3 ?d = 3"
    using createDevice_retry_limit [where w = ?w2 and deviceId = ?d and nm = ?n and env = env_failing]
      w2 timeout
    by (simp add: maxRetries_def)
  then have full: "maxRetries \<le> initAttemptCount ?w3 ?d"
    by (simp add: maxRetries_def)
  have limit: "fst (createDevice env_ok ?d ?n ?w3) = Inl RetryLimitExceeded"
    using createDevice_retry_limit [where w = ?w3 and deviceId = ?d and nm = ?n and env = env_ok]
      reach full
    by simp
  have reset: "initAttemptCount (snd (createDevice env_ok ?d ?n ?w1)) ?d = 0"
    using createDevice_retry_limit [where w = ?w1 and deviceId = ?d and nm = ?n and env = env_ok]
      w1 ok
    by (simp add: maxRetries_def)
  have dup: "createDevice env_ok ?d ?n world1 = (Inl AlreadyExists, world1)"
    using createDevice_retry_limit [where w = world1 and deviceId = ?d and nm = ?n and env = env_ok]
      active
    by simp
  from active dup absent zero failing timeout w1 reach full limit ok reset show ?thesis
    by simp
qed

end
